theory Spec2Isabelle
  imports Complex_Main
begin

section \<open>The gradebook of logic.py\<close>

text \<open>
  The development embeds \<^verbatim>\<open>src/logic.py\<close>: the classes \<^verbatim>\<open>Assignment\<close>,
  \<^verbatim>\<open>Course\<close>, \<^verbatim>\<open>DataManager\<close> and \<^verbatim>\<open>GradeCalculator\<close>.

  Modelling decisions.
  \<^item> Python objects live in an explicit store. A reference is an address; the store maps
    addresses to field records, and a constructor call takes the next free address.
    Neither class defines \<^verbatim>\<open>__eq__\<close>, so \<^verbatim>\<open>x in xs\<close> and \<^verbatim>\<open>xs.remove(x)\<close>
    compare by identity: in the model they compare addresses.
  \<^item> An exception is a value: an operation that may raise returns
    \<open>(error + 'a) \<times> world\<close>, the world being the one left behind at the raise.
  \<^item> Scores and maximum points are real numbers: arithmetic is exact, rounding of
    Python floats is not modelled.
  \<^item> A CSV file is the list of its rows, a row the list of its fields as text. The
    quoting done by the \<^verbatim>\<open>csv\<close> module below that level is not modelled.
  \<^item> \<^verbatim>\<open>str\<close> and \<^verbatim>\<open>int\<close> on integers are modelled on ASCII text. \<^verbatim>\<open>str\<close> and
    \<^verbatim>\<open>float\<close> on scores are parameters of the operations (record \<open>python\<close>), so
    that what does not depend on them holds for any; \<open>cpython\<close> is the instance that
    writes and reads decimal text.
\<close>

subsection \<open>Text\<close>

definition is_space :: "char \<Rightarrow> bool" where
  "is_space c \<longleftrightarrow>
     c \<in> set [CHR 0x09, CHR 0x0A, CHR 0x0B, CHR 0x0C, CHR 0x0D,
               CHR 0x1C, CHR 0x1D, CHR 0x1E, CHR 0x1F, CHR 0x20]"

text \<open>\<^verbatim>\<open>str.strip()\<close>: whitespace is removed at both ends (ASCII whitespace here).\<close>

definition strip :: "string \<Rightarrow> string" where
  "strip s = rev (dropWhile is_space (rev (dropWhile is_space s)))"

definition has_outer_whitespace :: "string \<Rightarrow> bool" where
  "has_outer_whitespace s \<longleftrightarrow> s \<noteq> [] \<and> (is_space (hd s) \<or> is_space (last s))"

subsection \<open>Errors\<close>

datatype error = ValueError string | KeyError string | TypeError

subsection \<open>Integers as text\<close>

definition digit_char :: "nat \<Rightarrow> char" where
  "digit_char d = ''0123456789'' ! d"

definition digit_val :: "char \<Rightarrow> nat option" where
  "digit_val c = map_of (zip ''0123456789'' [0 ..< 10]) c"

fun str_nat :: "nat \<Rightarrow> string" where
  "str_nat n = (if n < 10 then [digit_char n] else str_nat (n div 10) @ [digit_char (n mod 10)])"

declare str_nat.simps [simp del]

text \<open>\<^verbatim>\<open>str(i)\<close> for an integer.\<close>

definition str_int :: "int \<Rightarrow> string" where
  "str_int i = (if i < 0 then CHR ''-'' # str_nat (nat (- i)) else str_nat (nat i))"

text \<open>
  The digits of an integer literal after its first digit: digits, each optionally
  preceded by one underscore.
\<close>

fun more_digits :: "nat \<Rightarrow> string \<Rightarrow> nat option" where
  "more_digits acc [] = Some acc"
| "more_digits acc [c] = (case digit_val c of None \<Rightarrow> None | Some d \<Rightarrow> Some (10 * acc + d))"
| "more_digits acc (c # c' # cs) =
     (case digit_val c of
        Some d \<Rightarrow> more_digits (10 * acc + d) (c' # cs)
      | None \<Rightarrow>
          (if c = CHR ''_'' then
             (case digit_val c' of None \<Rightarrow> None | Some d \<Rightarrow> more_digits (10 * acc + d) cs)
           else None))"

definition parse_nat :: "string \<Rightarrow> nat option" where
  "parse_nat s =
     (case s of [] \<Rightarrow> None
      | c # cs \<Rightarrow> (case digit_val c of None \<Rightarrow> None | Some d \<Rightarrow> more_digits d cs))"

text \<open>\<^verbatim>\<open>int(s)\<close> for text: surrounding whitespace, an optional sign, decimal digits.\<close>

definition py_int :: "string \<Rightarrow> error + int" where
  "py_int s =
     (let t = strip s;
          r = (case t of [] \<Rightarrow> None
               | c # cs \<Rightarrow>
                   if c = CHR ''-'' then map_option (\<lambda>n. - int n) (parse_nat cs)
                   else if c = CHR ''+'' then map_option int (parse_nat cs)
                   else map_option int (parse_nat t))
      in case r of None \<Rightarrow> Inl (ValueError ''invalid literal for int() with base 10'')
                 | Some i \<Rightarrow> Inr i)"

text \<open>\<^verbatim>\<open>str\<close> and \<^verbatim>\<open>float\<close> on the numbers used as scores.\<close>

record python =
  str_num :: "real \<Rightarrow> string"
  py_float :: "string \<Rightarrow> error + real"

text \<open>
  The decimal text of a score, and its reading. \<^verbatim>\<open>str\<close> of a float is modelled in
  Python's fixed notation, the integer part, a point and the fractional digits
  (\<^verbatim>\<open>'8.0'\<close>, \<^verbatim>\<open>'86.5'\<close>), with at most 1074 fractional digits, which is what the
  finest finite float needs. Python's switch to exponent notation for very large and
  very small floats, and its choice of the shortest digits that read back, are not
  modelled, since rounding is not.
\<close>

definition max_fraction_digits :: nat where
  "max_fraction_digits = 1074"

fun frac_digits :: "nat \<Rightarrow> real \<Rightarrow> string" where
  "frac_digits 0 f = []"
| "frac_digits (Suc n) f =
     (if f = 0 then []
      else digit_char (nat \<lfloor>10 * f\<rfloor>) # frac_digits n (10 * f - of_int \<lfloor>10 * f\<rfloor>))"

definition str_unsigned :: "real \<Rightarrow> string" where
  "str_unsigned x =
     str_nat (nat \<lfloor>x\<rfloor>) @ CHR ''.'' #
       (case frac_digits max_fraction_digits (x - of_int \<lfloor>x\<rfloor>) of
          [] \<Rightarrow> ''0'' | d # ds \<Rightarrow> d # ds)"

definition str_float :: "real \<Rightarrow> string" where
  "str_float x = (if x < 0 then CHR ''-'' # str_unsigned (- x) else str_unsigned x)"

text \<open>
  \<^verbatim>\<open>float(s)\<close> for text: surrounding whitespace, an optional sign, digits with an
  optional point and fraction, an optional exponent; digits may be separated by single
  underscores. The value is exact. \<^verbatim>\<open>inf\<close> and \<^verbatim>\<open>nan\<close>, which are no real numbers,
  are not read.
\<close>

fun more_digit_list :: "string \<Rightarrow> nat list \<times> string" where
  "more_digit_list [] = ([], [])"
| "more_digit_list [c] = (case digit_val c of None \<Rightarrow> ([], [c]) | Some d \<Rightarrow> ([d], []))"
| "more_digit_list (c # c' # cs) =
     (case digit_val c of
        Some d \<Rightarrow> (case more_digit_list (c' # cs) of (ds, r) \<Rightarrow> (d # ds, r))
      | None \<Rightarrow>
          (if c = CHR ''_'' then
             (case digit_val c' of
                None \<Rightarrow> ([], c # c' # cs)
              | Some d \<Rightarrow> (case more_digit_list cs of (ds, r) \<Rightarrow> (d # ds, r)))
           else ([], c # c' # cs)))"

definition read_digits :: "string \<Rightarrow> nat list \<times> string" where
  "read_digits s =
     (case s of [] \<Rightarrow> ([], [])
      | c # cs \<Rightarrow>
          (case digit_val c of
             None \<Rightarrow> ([], c # cs)
           | Some d \<Rightarrow> (case more_digit_list cs of (ds, r) \<Rightarrow> (d # ds, r))))"

definition digits_value :: "nat list \<Rightarrow> nat" where
  "digits_value ds = foldl (\<lambda>a d. 10 * a + d) 0 ds"

definition read_sign :: "string \<Rightarrow> bool \<times> string" where
  "read_sign t =
     (case t of [] \<Rightarrow> (False, [])
      | c # cs \<Rightarrow>
          if c = CHR ''-'' then (True, cs)
          else if c = CHR ''+'' then (False, cs)
          else (False, c # cs))"

definition read_fraction :: "string \<Rightarrow> nat list \<times> string" where
  "read_fraction r =
     (case r of [] \<Rightarrow> ([], [])
      | c # cs \<Rightarrow> if c = CHR ''.'' then read_digits cs else ([], c # cs))"

definition read_exponent :: "string \<Rightarrow> (int \<times> string) option" where
  "read_exponent r =
     (case r of [] \<Rightarrow> Some (0, [])
      | c # cs \<Rightarrow>
          if c = CHR ''e'' \<or> c = CHR ''E'' then
            (case read_sign cs of (neg, r') \<Rightarrow>
               (case read_digits r' of (ds, r'') \<Rightarrow>
                  if ds = [] then None
                  else Some (if neg then - int (digits_value ds) else int (digits_value ds), r'')))
          else Some (0, c # cs))"

definition float_of_str :: "string \<Rightarrow> error + real" where
  "float_of_str s =
     (case read_sign (strip s) of (neg, t) \<Rightarrow>
      case read_digits t of (ip, r1) \<Rightarrow>
      case read_fraction r1 of (fp, r2) \<Rightarrow>
      case read_exponent r2 of
        None \<Rightarrow> Inl (ValueError ''could not convert string to float'')
      | Some (e, r3) \<Rightarrow>
          if (ip = [] \<and> fp = []) \<or> r3 \<noteq> []
          then Inl (ValueError ''could not convert string to float'')
          else
            let m = real (digits_value ip) + real (digits_value fp) / 10 ^ length fp;
                v = (if e < 0 then m / 10 ^ nat (- e) else m * 10 ^ nat e)
            in Inr (if neg then - v else v))"

definition cpython :: python where
  "cpython = \<lparr>str_num = str_float, py_float = float_of_str\<rparr>"

text \<open>A decimal number of at most 1074 fractional digits.\<close>

definition decimal_number :: "real \<Rightarrow> bool" where
  "decimal_number x \<longleftrightarrow> x * 10 ^ max_fraction_digits \<in> \<int>"

text \<open>
  The values of Python's \<^verbatim>\<open>float\<close> that are numbers: a significand below \<open>2 ^ 53\<close>
  in absolute value, scaled by a power of two between \<open>2 ^ - 1074\<close> and \<open>2 ^ 971\<close>.
\<close>

definition finite_float :: "real \<Rightarrow> bool" where
  "finite_float x \<longleftrightarrow>
     (\<exists>(m :: int) (a :: nat) (b :: nat).
        \<bar>m\<bar> < 2 ^ 53 \<and> a \<le> 971 \<and> b \<le> 1074 \<and> x = of_int m * 2 ^ a / 2 ^ b)"

subsection \<open>Objects and the store\<close>

type_synonym ref = nat

record Assignment =
  assignment_id :: int
  a_course_id :: int
  a_name :: "string option"
  score :: real
  max_points :: real

record Course =
  course_id :: int
  name :: "string option"
  assignments :: "ref list"

text \<open>
  A name is \<open>Some\<close> text, or \<open>None\<close> for Python's \<^verbatim>\<open>None\<close>, which
  \<^verbatim>\<open>csv.DictReader\<close> supplies for a row shorter than the header.

  Both classes have the fields \<^verbatim>\<open>course_id\<close> and \<^verbatim>\<open>name\<close>: those of
  \<^verbatim>\<open>Assignment\<close> are \<open>a_course_id\<close> and \<open>a_name\<close> here. Likewise
  \<^verbatim>\<open>Course.add_assignment\<close> is \<open>Course_add_assignment\<close>, and \<open>add_assignment\<close>
  is the method of \<^verbatim>\<open>GradeCalculator\<close>.
\<close>

record world =
  course_obj :: "ref \<Rightarrow> Course"
  assignment_obj :: "ref \<Rightarrow> Assignment"
  next_course :: ref
  next_assignment :: ref
  courses :: "ref list"
  courses_file :: "string list list option"
  assignments_file :: "string list list option"

text \<open>
  \<open>courses\<close> is \<^verbatim>\<open>GradeCalculator.courses\<close>; the two files are
  \<^verbatim>\<open>courses.csv\<close> and \<^verbatim>\<open>assignments.csv\<close>, \<open>None\<close> when the file does not
  exist.
\<close>

definition new_Assignment :: "int \<Rightarrow> int \<Rightarrow> string option \<Rightarrow> real \<Rightarrow> real \<Rightarrow> world \<Rightarrow> ref \<times> world" where
  "new_Assignment aid cid n s m w =
     (next_assignment w,
      w\<lparr>assignment_obj := (assignment_obj w)(next_assignment w :=
           \<lparr>assignment_id = aid, a_course_id = cid, a_name = n, score = s, max_points = m\<rparr>),
        next_assignment := Suc (next_assignment w)\<rparr>)"

definition new_Course :: "int \<Rightarrow> string option \<Rightarrow> world \<Rightarrow> ref \<times> world" where
  "new_Course cid n w =
     (next_course w,
      w\<lparr>course_obj := (course_obj w)(next_course w :=
           \<lparr>course_id = cid, name = n, assignments = []\<rparr>),
        next_course := Suc (next_course w)\<rparr>)"

subsection \<open>class Assignment\<close>

definition get_percentage :: "world \<Rightarrow> ref \<Rightarrow> real" where
  "get_percentage w self =
     (if max_points (assignment_obj w self) = 0 then 0
      else (score (assignment_obj w self) / max_points (assignment_obj w self)) * 100)"

subsection \<open>class Course\<close>

definition Course_add_assignment :: "ref \<Rightarrow> ref \<Rightarrow> world \<Rightarrow> world" where
  "Course_add_assignment self a w =
     w\<lparr>course_obj := (course_obj w)(self :=
          (course_obj w self)\<lparr>assignments := assignments (course_obj w self) @ [a]\<rparr>)\<rparr>"

definition remove_assignment :: "ref \<Rightarrow> ref \<Rightarrow> world \<Rightarrow> world" where
  "remove_assignment self a w =
     (if a \<in> set (assignments (course_obj w self)) then
        w\<lparr>course_obj := (course_obj w)(self :=
             (course_obj w self)\<lparr>assignments := remove1 a (assignments (course_obj w self))\<rparr>)\<rparr>
      else w)"

definition calculate_grade :: "world \<Rightarrow> ref \<Rightarrow> real" where
  "calculate_grade w self =
     (if assignments (course_obj w self) = [] then 0
      else
        let total_earned = sum_list (map (\<lambda>a. score (assignment_obj w a)) (assignments (course_obj w self)));
            total_possible = sum_list (map (\<lambda>a. max_points (assignment_obj w a)) (assignments (course_obj w self)))
        in if total_possible = 0 then 0 else (total_earned / total_possible) * 100)"

definition get_letter_grade :: "world \<Rightarrow> ref \<Rightarrow> string" where
  "get_letter_grade w self =
     (let percentage = calculate_grade w self
      in if percentage \<ge> 90 then ''A''
         else if percentage \<ge> 80 then ''B''
         else if percentage \<ge> 70 then ''C''
         else if percentage \<ge> 60 then ''D''
         else ''F'')"

definition grade_scale :: "(string \<times> real) list" where
  "grade_scale = [(''A'', 4), (''B'', 3), (''C'', 2), (''D'', 1), (''F'', 0)]"

definition calculate_gpa :: "world \<Rightarrow> ref \<Rightarrow> real" where
  "calculate_gpa w self =
     (let letter_grade = get_letter_grade w self
      in case map_of grade_scale letter_grade of None \<Rightarrow> 0 | Some g \<Rightarrow> g)"

subsection \<open>class DataManager\<close>

text \<open>
  \<^verbatim>\<open>csv.DictReader\<close>: the first row holds the field names; an empty row is skipped;
  a row is zipped with the field names, a missing field is \<^verbatim>\<open>None\<close>, and a later
  column of the same name wins.
\<close>

type_synonym csv_dict = "(string \<times> string option) list"

definition mk_dict :: "string list \<Rightarrow> string list \<Rightarrow> csv_dict" where
  "mk_dict fieldnames row =
     zip fieldnames (map Some row) @ map (\<lambda>k. (k, None)) (drop (length row) fieldnames)"

definition DictReader :: "string list list \<Rightarrow> csv_dict list" where
  "DictReader f =
     (case f of [] \<Rightarrow> []
      | fieldnames # rows \<Rightarrow> map (mk_dict fieldnames) (filter (\<lambda>r. r \<noteq> []) rows))"

definition dict_get :: "csv_dict \<Rightarrow> string \<Rightarrow> error + string option" where
  "dict_get d k = (case map_of (rev d) k of None \<Rightarrow> Inl (KeyError k) | Some v \<Rightarrow> Inr v)"

definition int_of_field :: "string option \<Rightarrow> error + int" where
  "int_of_field v = (case v of None \<Rightarrow> Inl TypeError | Some s \<Rightarrow> py_int s)"

definition float_of_field :: "python \<Rightarrow> string option \<Rightarrow> error + real" where
  "float_of_field py v = (case v of None \<Rightarrow> Inl TypeError | Some s \<Rightarrow> py_float py s)"

text \<open>\<^verbatim>\<open>csv.writer\<close> writes \<^verbatim>\<open>None\<close> as the empty field.\<close>

definition csv_text :: "string option \<Rightarrow> string" where
  "csv_text v = (case v of None \<Rightarrow> [] | Some s \<Rightarrow> s)"

definition courses_header :: "string list" where
  "courses_header = [''course_id'', ''name'']"

definition assignments_header :: "string list" where
  "assignments_header = [''assignment_id'', ''course_id'', ''name'', ''score'', ''max_points'']"

definition create_files_if_needed :: "world \<Rightarrow> world" where
  "create_files_if_needed w =
     (let w1 = (if courses_file w = None then w\<lparr>courses_file := Some [courses_header]\<rparr> else w)
      in if assignments_file w1 = None then w1\<lparr>assignments_file := Some [assignments_header]\<rparr>
         else w1)"

text \<open>The arguments of \<^verbatim>\<open>Course(int(row['course_id']), row['name'])\<close>, left to right.\<close>

definition course_of_row :: "csv_dict \<Rightarrow> error + (int \<times> string option)" where
  "course_of_row row =
     (case dict_get row ''course_id'' of Inl e \<Rightarrow> Inl e
      | Inr v \<Rightarrow>
     (case int_of_field v of Inl e \<Rightarrow> Inl e
      | Inr cid \<Rightarrow>
     (case dict_get row ''name'' of Inl e \<Rightarrow> Inl e
      | Inr n \<Rightarrow> Inr (cid, n))))"

fun load_course_rows :: "csv_dict list \<Rightarrow> ref list \<Rightarrow> world \<Rightarrow> (error + ref list) \<times> world" where
  "load_course_rows [] acc w = (Inr acc, w)"
| "load_course_rows (row # rows) acc w =
     (case course_of_row row of
        Inl e \<Rightarrow> (Inl e, w)
      | Inr (cid, n) \<Rightarrow>
          (case new_Course cid n w of (c, w') \<Rightarrow> load_course_rows rows (acc @ [c]) w'))"

definition load_courses :: "world \<Rightarrow> (error + ref list) \<times> world" where
  "load_courses w =
     (case courses_file w of
        None \<Rightarrow> (Inr [], w)
      | Some f \<Rightarrow> load_course_rows (DictReader f) [] w)"

definition assignment_of_row :: "python \<Rightarrow> csv_dict \<Rightarrow> error + Assignment" where
  "assignment_of_row py row =
     (case dict_get row ''assignment_id'' of Inl e \<Rightarrow> Inl e
      | Inr v1 \<Rightarrow>
     (case int_of_field v1 of Inl e \<Rightarrow> Inl e
      | Inr aid \<Rightarrow>
     (case dict_get row ''course_id'' of Inl e \<Rightarrow> Inl e
      | Inr v2 \<Rightarrow>
     (case int_of_field v2 of Inl e \<Rightarrow> Inl e
      | Inr cid \<Rightarrow>
     (case dict_get row ''name'' of Inl e \<Rightarrow> Inl e
      | Inr n \<Rightarrow>
     (case dict_get row ''score'' of Inl e \<Rightarrow> Inl e
      | Inr v3 \<Rightarrow>
     (case float_of_field py v3 of Inl e \<Rightarrow> Inl e
      | Inr s \<Rightarrow>
     (case dict_get row ''max_points'' of Inl e \<Rightarrow> Inl e
      | Inr v4 \<Rightarrow>
     (case float_of_field py v4 of Inl e \<Rightarrow> Inl e
      | Inr m \<Rightarrow>
          Inr \<lparr>assignment_id = aid, a_course_id = cid, a_name = n,
               score = s, max_points = m\<rparr>)))))))))"

fun load_assignment_rows :: "python \<Rightarrow> csv_dict list \<Rightarrow> ref list \<Rightarrow> world \<Rightarrow> (error + ref list) \<times> world" where
  "load_assignment_rows py [] acc w = (Inr acc, w)"
| "load_assignment_rows py (row # rows) acc w =
     (case assignment_of_row py row of
        Inl e \<Rightarrow> (Inl e, w)
      | Inr x \<Rightarrow>
          (case new_Assignment (assignment_id x) (a_course_id x) (a_name x) (score x) (max_points x) w
           of (a, w') \<Rightarrow> load_assignment_rows py rows (acc @ [a]) w'))"

definition load_assignments :: "python \<Rightarrow> world \<Rightarrow> (error + ref list) \<times> world" where
  "load_assignments py w =
     (case assignments_file w of
        None \<Rightarrow> (Inr [], w)
      | Some f \<Rightarrow> load_assignment_rows py (DictReader f) [] w)"

definition course_row :: "world \<Rightarrow> ref \<Rightarrow> string list" where
  "course_row w c = [str_int (course_id (course_obj w c)), csv_text (name (course_obj w c))]"

definition save_all_courses :: "ref list \<Rightarrow> world \<Rightarrow> world" where
  "save_all_courses cs w = w\<lparr>courses_file := Some (courses_header # map (course_row w) cs)\<rparr>"

definition assignment_row :: "python \<Rightarrow> world \<Rightarrow> ref \<Rightarrow> string list" where
  "assignment_row py w a =
     [str_int (assignment_id (assignment_obj w a)),
      str_int (a_course_id (assignment_obj w a)),
      csv_text (a_name (assignment_obj w a)),
      str_num py (score (assignment_obj w a)),
      str_num py (max_points (assignment_obj w a))]"

definition save_all_assignments :: "python \<Rightarrow> ref list \<Rightarrow> world \<Rightarrow> world" where
  "save_all_assignments py cs w =
     w\<lparr>assignments_file := Some (assignments_header #
          concat (map (\<lambda>c. map (assignment_row py w) (assignments (course_obj w c))) cs))\<rparr>"

subsection \<open>class GradeCalculator\<close>

text \<open>The inner loop of \<^verbatim>\<open>load_all_data\<close>: the first course of the same id, then \<^verbatim>\<open>break\<close>.\<close>

fun link_assignment :: "ref \<Rightarrow> ref list \<Rightarrow> world \<Rightarrow> world" where
  "link_assignment a [] w = w"
| "link_assignment a (c # cs) w =
     (if course_id (course_obj w c) = a_course_id (assignment_obj w a)
      then Course_add_assignment c a w
      else link_assignment a cs w)"

fun link_assignments :: "ref list \<Rightarrow> world \<Rightarrow> world" where
  "link_assignments [] w = w"
| "link_assignments (a # as) w = link_assignments as (link_assignment a (courses w) w)"

definition load_all_data :: "python \<Rightarrow> world \<Rightarrow> (error + unit) \<times> world" where
  "load_all_data py w =
     (case load_courses w of
        (Inl e, w1) \<Rightarrow> (Inl e, w1)
      | (Inr cs, w1) \<Rightarrow>
          (case load_assignments py (w1\<lparr>courses := cs\<rparr>) of
             (Inl e, w2) \<Rightarrow> (Inl e, w2)
           | (Inr as, w2) \<Rightarrow> (Inr (), link_assignments as w2)))"

definition save_all_data :: "python \<Rightarrow> world \<Rightarrow> world" where
  "save_all_data py w = save_all_assignments py (courses w) (save_all_courses (courses w) w)"

definition GradeCalculator_init :: "python \<Rightarrow> world \<Rightarrow> (error + unit) \<times> world" where
  "GradeCalculator_init py w = load_all_data py (create_files_if_needed (w\<lparr>courses := []\<rparr>))"

definition get_all_courses :: "world \<Rightarrow> ref list" where
  "get_all_courses w = courses w"

text \<open>\<^verbatim>\<open>max(xs, default=d)\<close>.\<close>

definition max_default :: "int list \<Rightarrow> int \<Rightarrow> int" where
  "max_default xs d = (case xs of [] \<Rightarrow> d | x # ys \<Rightarrow> fold max ys x)"

definition add_course :: "python \<Rightarrow> world \<Rightarrow> string \<Rightarrow> (error + ref) \<times> world" where
  "add_course py w n =
     (if strip n = [] then (Inl (ValueError ''Course name cannot be empty''), w)
      else
        let new_id = max_default (map (\<lambda>c. course_id (course_obj w c)) (courses w)) 0 + 1
        in case new_Course new_id (Some (strip n)) w of
             (course, w1) \<Rightarrow> (Inr course, save_all_data py (w1\<lparr>courses := courses w1 @ [course]\<rparr>)))"

definition delete_course :: "python \<Rightarrow> world \<Rightarrow> ref \<Rightarrow> world" where
  "delete_course py w course =
     (if course \<in> set (courses w)
      then save_all_data py (w\<lparr>courses := remove1 course (courses w)\<rparr>)
      else w)"

definition add_assignment :: "python \<Rightarrow> world \<Rightarrow> ref \<Rightarrow> string \<Rightarrow> real \<Rightarrow> real \<Rightarrow> (error + ref) \<times> world" where
  "add_assignment py w course n s m =
     (if strip n = [] then (Inl (ValueError ''Assignment name cannot be empty''), w)
      else if m \<le> 0 then (Inl (ValueError ''Max points must be greater than 0''), w)
      else if s < 0 then (Inl (ValueError ''Score cannot be negative''), w)
      else if s > m then (Inl (ValueError ''Score cannot exceed max points''), w)
      else
        let all_assignments = concat (map (\<lambda>c. assignments (course_obj w c)) (courses w));
            new_id = max_default (map (\<lambda>a. assignment_id (assignment_obj w a)) all_assignments) 0 + 1
        in case new_Assignment new_id (course_id (course_obj w course)) (Some (strip n)) s m w of
             (assignment, w1) \<Rightarrow>
               (Inr assignment, save_all_data py (Course_add_assignment course assignment w1)))"

definition delete_assignment :: "python \<Rightarrow> world \<Rightarrow> ref \<Rightarrow> ref \<Rightarrow> world" where
  "delete_assignment py w course assignment = save_all_data py (remove_assignment course assignment w)"

definition calculate_overall_gpa :: "world \<Rightarrow> real" where
  "calculate_overall_gpa w =
     (if courses w = [] then 0
      else
        let total_gpa = sum_list (map (calculate_gpa w) (courses w))
        in total_gpa / real (length (courses w)))"

subsection \<open>The collection as a value\<close>

text \<open>
  What a course holds, read through the store: its id, its name and its assignments'
  field records in list order. Two collections are equal when these agree, whatever the
  addresses of the objects.
\<close>

definition course_view :: "world \<Rightarrow> ref \<Rightarrow> int \<times> string option \<times> Assignment list" where
  "course_view w c =
     (course_id (course_obj w c), name (course_obj w c),
      map (assignment_obj w) (assignments (course_obj w c)))"

definition collection :: "world \<Rightarrow> (int \<times> string option \<times> Assignment list) list" where
  "collection w = map (course_view w) (courses w)"

text \<open>
  A valid collection: course ids are unique, names are text, and an assignment carries
  the id of the course that holds it.
\<close>

definition valid_collection :: "world \<Rightarrow> bool" where
  "valid_collection w \<longleftrightarrow>
     distinct (map (\<lambda>c. course_id (course_obj w c)) (courses w)) \<and>
     (\<forall>c \<in> set (courses w).
        name (course_obj w c) \<noteq> None \<and>
        (\<forall>a \<in> set (assignments (course_obj w c)).
           a_course_id (assignment_obj w a) = course_id (course_obj w c) \<and>
           a_name (assignment_obj w a) \<noteq> None))"

text \<open>\<^verbatim>\<open>float(str(x)) == x\<close> for the scores and maximum points of the collection.\<close>

definition numbers_survive_text :: "python \<Rightarrow> world \<Rightarrow> bool" where
  "numbers_survive_text py w \<longleftrightarrow>
     (\<forall>c \<in> set (courses w). \<forall>a \<in> set (assignments (course_obj w c)).
        py_float py (str_num py (score (assignment_obj w a))) = Inr (score (assignment_obj w a)) \<and>
        py_float py (str_num py (max_points (assignment_obj w a))) =
          Inr (max_points (assignment_obj w a)))"

text \<open>The scores and maximum points of the collection are floats.\<close>

definition float_scores :: "world \<Rightarrow> bool" where
  "float_scores w \<longleftrightarrow>
     (\<forall>c \<in> set (courses w). \<forall>a \<in> set (assignments (course_obj w c)).
        finite_float (score (assignment_obj w a)) \<and>
        finite_float (max_points (assignment_obj w a)))"

subsection \<open>Runs of the program\<close>

text \<open>
  The worlds a run can reach from the world \<open>w0\<close> it starts in: a calculator is
  constructed on the stores of \<open>w0\<close>, whatever they hold, then courses and assignments
  are added and deleted (with any references as arguments), and a calculator may be
  constructed again on the files left behind.
\<close>

inductive reachable :: "python \<Rightarrow> world \<Rightarrow> world \<Rightarrow> bool"
  for py :: python and w0 :: world where
  start: "reachable py w0 (snd (GradeCalculator_init py w0))"
| restart: "reachable py w0 w \<Longrightarrow> reachable py w0 (snd (GradeCalculator_init py w))"
| add_course: "reachable py w0 w \<Longrightarrow> reachable py w0 (snd (add_course py w n))"
| delete_course: "reachable py w0 w \<Longrightarrow> reachable py w0 (delete_course py w c)"
| add_assignment:
    "reachable py w0 w \<Longrightarrow> reachable py w0 (snd (add_assignment py w c n s m))"
| delete_assignment: "reachable py w0 w \<Longrightarrow> reachable py w0 (delete_assignment py w c a)"

text \<open>The names a store holds, as \<^verbatim>\<open>csv.DictReader\<close> reads them.\<close>

definition persisted_names :: "string list list option \<Rightarrow> string list" where
  "persisted_names f =
     (case f of None \<Rightarrow> []
      | Some rows \<Rightarrow>
          concat (map (\<lambda>d. case dict_get d ''name'' of Inr (Some n) \<Rightarrow> [n] | _ \<Rightarrow> [])
                      (DictReader rows)))"

text \<open>
  The names of the collection in memory have no whitespace at either end, and the
  collection refers to allocated objects only.
\<close>

definition stored_names_trimmed :: "world \<Rightarrow> bool" where
  "stored_names_trimmed w \<longleftrightarrow>
     (\<forall>c \<in> set (courses w).
        c < next_course w \<and>
        (\<forall>n. name (course_obj w c) = Some n \<longrightarrow> \<not> has_outer_whitespace n) \<and>
        (\<forall>a \<in> set (assignments (course_obj w c)).
           a < next_assignment w \<and>
           (\<forall>n. a_name (assignment_obj w a) = Some n \<longrightarrow> \<not> has_outer_whitespace n)))"

definition persisted_names_trimmed :: "world \<Rightarrow> bool" where
  "persisted_names_trimmed w \<longleftrightarrow>
     (\<forall>n \<in> set (persisted_names (courses_file w) @ persisted_names (assignments_file w)).
        \<not> has_outer_whitespace n)"

subsection \<open>Example worlds\<close>

text \<open>A fresh directory and an empty store.\<close>

definition empty_world :: world where
  "empty_world =
     \<lparr>course_obj = (\<lambda>_. \<lparr>course_id = 0, name = None, assignments = []\<rparr>),
      assignment_obj = (\<lambda>_. \<lparr>assignment_id = 0, a_course_id = 0, a_name = None,
                                score = 0, max_points = 0\<rparr>),
      next_course = 0, next_assignment = 0, courses = [],
      courses_file = None, assignments_file = None\<rparr>"

text \<open>A fragment of \<^verbatim>\<open>str\<close> and \<^verbatim>\<open>float\<close> that covers the scores of the examples.\<close>

definition demo_python :: python where
  "demo_python =
     \<lparr>str_num = (\<lambda>x. if x = 8 then ''8'' else if x = 10 then ''10''
                     else if x = 18 then ''18'' else if x = 20 then ''20'' else ''0''),
      py_float = (\<lambda>s. if s = ''8'' then Inr 8 else if s = ''10'' then Inr 10
                     else if s = ''18'' then Inr 18 else if s = ''20'' then Inr 20
                     else if s = ''0'' then Inr 0
                     else Inl (ValueError ''could not convert string to float''))\<rparr>"

text \<open>
  The end-to-end run of the specification: a calculator on a fresh directory, the course
  Algorithms, then HW1 (8 of 10) and HW2 (18 of 20).
\<close>

definition started_world :: world where
  "started_world = snd (GradeCalculator_init demo_python empty_world)"

definition algorithms_world :: world where
  "algorithms_world = snd (add_course demo_python started_world ''Algorithms'')"

definition hw1_world :: world where
  "hw1_world = snd (add_assignment demo_python algorithms_world 0 ''HW1'' 8 10)"

definition hw2_world :: world where
  "hw2_world = snd (add_assignment demo_python hw1_world 0 ''HW2'' 18 20)"

text \<open>Two courses with assignments: Databases with a quiz is added to the run above.\<close>

definition quiz_world :: world where
  "quiz_world =
     snd (add_assignment demo_python (snd (add_course demo_python hw2_world ''Databases''))
            1 ''Quiz'' 10 20)"

text \<open>A course and an assignment whose names are given with whitespace around them.\<close>

definition padded_course_world :: world where
  "padded_course_world = snd (add_course demo_python started_world ''  Algorithms  '')"

definition padded_world :: world where
  "padded_world = snd (add_assignment demo_python padded_course_world 0 '' HW1 '' 8 10)"

text \<open>
  A fresh process in the directory that \<open>quiz_world\<close> saved: the two files, no objects
  and no courses in memory.
\<close>

definition quiz_restart :: world where
  "quiz_restart =
     empty_world\<lparr>courses_file := courses_file (save_all_data cpython quiz_world),
                 assignments_file := assignments_file (save_all_data cpython quiz_world)\<rparr>"

text \<open>
  A directory whose course store holds a name with whitespace around it, the calculator
  started on it, and a course added afterwards.
\<close>

definition edited_files :: world where
  "edited_files =
     empty_world\<lparr>courses_file := Some [courses_header, [''1'', '' padded '']],
                 assignments_file := Some [assignments_header]\<rparr>"

definition edited_loaded :: world where
  "edited_loaded = snd (GradeCalculator_init demo_python edited_files)"

definition edited_saved :: world where
  "edited_saved = snd (add_course demo_python edited_loaded ''Algorithms'')"

text \<open>The course Algorithms with a single assignment of the given score and maximum.\<close>

definition one_exam_world :: "real \<Rightarrow> real \<Rightarrow> world" where
  "one_exam_world s m = snd (add_assignment demo_python algorithms_world 0 ''Exam'' s m)"

text \<open>A second course, its deletion, and a third course added afterwards.\<close>

definition databases_world :: world where
  "databases_world = snd (add_course demo_python algorithms_world ''Databases'')"

definition deleted_world :: world where
  "deleted_world = delete_course demo_python databases_world 1"

definition compilers_world :: world where
  "compilers_world = snd (add_course demo_python deleted_world ''Compilers'')"

text \<open>
  A directory whose assignment store holds a row of a course that the course store does
  not have, and the calculator started on it.
\<close>

definition dangling_files :: world where
  "dangling_files =
     empty_world\<lparr>courses_file := Some [courses_header, [''1'', ''Algorithms'']],
                 assignments_file := Some [assignments_header,
                   [''1'', ''1'', ''HW1'', ''8'', ''10''],
                   [''2'', ''7'', ''Lost'', ''18'', ''20'']]\<rparr>"

definition dangling_world :: world where
  "dangling_world = snd (GradeCalculator_init demo_python dangling_files)"

text \<open>
  A directory whose course store holds the id 1 twice, with assignments of the ids 1, 2
  and of the absent id 7.
\<close>

definition duplicate_files :: world where
  "duplicate_files =
     empty_world\<lparr>courses_file := Some [courses_header,
                   [''1'', ''Algorithms''], [''1'', ''Algebra''], [''2'', ''Databases'']],
                 assignments_file := Some [assignments_header,
                   [''1'', ''1'', ''HW1'', ''8'', ''10''],
                   [''2'', ''2'', ''HW2'', ''18'', ''20''],
                   [''3'', ''7'', ''Lost'', ''8'', ''10'']]\<rparr>"

section \<open>Properties\<close>

subsection \<open>The example worlds, evaluated\<close>

lemmas run_defs =
  GradeCalculator_init_def load_all_data_def load_courses_def load_assignments_def
  create_files_if_needed_def DictReader_def add_course_def add_assignment_def
  delete_course_def delete_assignment_def remove_assignment_def
  new_Course_def new_Assignment_def save_all_data_def save_all_courses_def
  save_all_assignments_def Course_add_assignment_def strip_def is_space_def
  max_default_def course_row_def assignment_row_def csv_text_def

lemma started_world_eq:
  "started_world = empty_world\<lparr>courses_file := Some [courses_header],
                               assignments_file := Some [assignments_header]\<rparr>"
  by (simp add: started_world_def run_defs empty_world_def)

lemma algorithms_world_fields:
  "courses algorithms_world = [0]"
  "course_obj algorithms_world 0 = \<lparr>course_id = 1, name = Some ''Algorithms'', assignments = []\<rparr>"
  "next_course algorithms_world = 1"
  "next_assignment algorithms_world = 0"
  by (simp_all add: algorithms_world_def started_world_eq run_defs empty_world_def)

lemma hw1_world_fields:
  "courses hw1_world = [0]"
  "course_obj hw1_world 0 = \<lparr>course_id = 1, name = Some ''Algorithms'', assignments = [0]\<rparr>"
  "assignment_obj hw1_world 0 =
     \<lparr>assignment_id = 1, a_course_id = 1, a_name = Some ''HW1'', score = 8, max_points = 10\<rparr>"
  "next_course hw1_world = 1"
  "next_assignment hw1_world = 1"
  by (simp_all add: hw1_world_def algorithms_world_def started_world_eq run_defs empty_world_def)

lemma hw2_world_fields:
  "courses hw2_world = [0]"
  "course_obj hw2_world 0 = \<lparr>course_id = 1, name = Some ''Algorithms'', assignments = [0, 1]\<rparr>"
  "assignment_obj hw2_world 0 =
     \<lparr>assignment_id = 1, a_course_id = 1, a_name = Some ''HW1'', score = 8, max_points = 10\<rparr>"
  "assignment_obj hw2_world (Suc 0) =
     \<lparr>assignment_id = 2, a_course_id = 1, a_name = Some ''HW2'', score = 18, max_points = 20\<rparr>"
  by (simp_all add: hw2_world_def hw1_world_def algorithms_world_def started_world_eq run_defs empty_world_def)

lemma one_exam_world_fields:
  assumes "0 \<le> s" "s \<le> m" "0 < m"
  shows "courses (one_exam_world s m) = [0]"
    and "assignments (course_obj (one_exam_world s m) 0) = [0]"
    and "score (assignment_obj (one_exam_world s m) 0) = s"
    and "max_points (assignment_obj (one_exam_world s m) 0) = m"
  using assms
  by (simp_all add: one_exam_world_def algorithms_world_def started_world_eq run_defs empty_world_def)

lemma upt_10: "[0 ..< 10] = [0, 1, 2, 3, 4, 5, 6, 7, 8, 9 :: nat]"
  by code_simp

lemma digit_val_unfold:
  "digit_val c = map_of [(CHR ''0'', 0), (CHR ''1'', 1), (CHR ''2'', 2), (CHR ''3'', 3),
     (CHR ''4'', 4), (CHR ''5'', 5), (CHR ''6'', 6), (CHR ''7'', 7), (CHR ''8'', 8),
     (CHR ''9'', 9)] c"
  by (simp add: digit_val_def upt_10)

lemmas parse_defs = py_int_def parse_nat_def digit_val_unfold int_of_field_def float_of_field_def
  dict_get_def mk_dict_def course_of_row_def assignment_of_row_def
  courses_header_def assignments_header_def demo_python_def

lemma databases_world_fields:
  "courses databases_world = [0, 1]"
  "course_obj databases_world 0 = \<lparr>course_id = 1, name = Some ''Algorithms'', assignments = []\<rparr>"
  "course_obj databases_world (Suc 0) = \<lparr>course_id = 2, name = Some ''Databases'', assignments = []\<rparr>"
  "next_course databases_world = 2"
  by (simp_all add: databases_world_def algorithms_world_def started_world_eq run_defs empty_world_def)

lemma deleted_world_fields:
  "courses deleted_world = [0]"
  "course_obj deleted_world 0 = \<lparr>course_id = 1, name = Some ''Algorithms'', assignments = []\<rparr>"
  "course_obj deleted_world (Suc 0) = \<lparr>course_id = 2, name = Some ''Databases'', assignments = []\<rparr>"
  "next_course deleted_world = 2"
  by (simp_all add: deleted_world_def databases_world_def algorithms_world_def started_world_eq run_defs empty_world_def)

lemma compilers_world_fields:
  "fst (add_course demo_python deleted_world ''Compilers'') = Inr 2"
  "courses compilers_world = [0, 2]"
  "course_obj compilers_world 2 = \<lparr>course_id = 2, name = Some ''Compilers'', assignments = []\<rparr>"
  by (simp_all add: compilers_world_def deleted_world_def databases_world_def algorithms_world_def started_world_eq run_defs empty_world_def)

lemma dangling_world_fields:
  "courses dangling_world = [0]"
  "assignments (course_obj dangling_world 0) = [0]"
  "a_name (assignment_obj dangling_world (Suc 0)) = Some ''Lost''"
  "a_course_id (assignment_obj dangling_world (Suc 0)) = 7"
  "course_id (course_obj dangling_world 0) = 1"
  "assignments_file dangling_world = Some [assignments_header,
                   [''1'', ''1'', ''HW1'', ''8'', ''10''],
                   [''2'', ''7'', ''Lost'', ''18'', ''20'']]"
  "fst (GradeCalculator_init demo_python dangling_files) = Inr ()"
  by (simp_all add: dangling_world_def dangling_files_def run_defs parse_defs empty_world_def)

subsection \<open>Percentages, grades and letters\<close>

text \<open>
  Claim C7. The percentage of an assignment is 0 when its maximum is 0; and when
  0 \<le> score \<le> max_points with max_points > 0, it is score / max_points * 100 and lies
  between 0 and 100.
\<close>

theorem get_percentage_bounds:
  "(max_points (assignment_obj w a) = 0 \<longrightarrow> get_percentage w a = 0) \<and>
   (0 \<le> score (assignment_obj w a) \<and> score (assignment_obj w a) \<le> max_points (assignment_obj w a)
      \<and> max_points (assignment_obj w a) > 0 \<longrightarrow>
    get_percentage w a = score (assignment_obj w a) / max_points (assignment_obj w a) * 100 \<and>
    0 \<le> get_percentage w a \<and> get_percentage w a \<le> 100)"
proof (intro conjI impI)
  assume "max_points (assignment_obj w a) = 0"
  then show "get_percentage w a = 0" by (simp add: get_percentage_def)
next
  assume h: "0 \<le> score (assignment_obj w a) \<and> score (assignment_obj w a) \<le> max_points (assignment_obj w a)
      \<and> max_points (assignment_obj w a) > 0"
  then show eq: "get_percentage w a = score (assignment_obj w a) / max_points (assignment_obj w a) * 100"
    by (simp add: get_percentage_def)
  from h show "0 \<le> get_percentage w a" unfolding eq by simp
  from h have "score (assignment_obj w a) / max_points (assignment_obj w a) \<le> 1" by simp
  then have "score (assignment_obj w a) / max_points (assignment_obj w a) * 100 \<le> 1 * 100"
    by (rule mult_right_mono) simp
  then show "get_percentage w a \<le> 100" unfolding eq by simp
qed

theorem get_percentage_bounds_witness:
  "max_points (assignment_obj empty_world 0) = 0 \<and> get_percentage empty_world 0 = 0 \<and>
   0 \<le> score (assignment_obj hw1_world 0) \<and>
   score (assignment_obj hw1_world 0) \<le> max_points (assignment_obj hw1_world 0) \<and>
   max_points (assignment_obj hw1_world 0) > 0 \<and>
   get_percentage hw1_world 0 = 80 \<and> 0 \<le> get_percentage hw1_world 0 \<and> get_percentage hw1_world 0 \<le> 100"
  using get_percentage_bounds [of empty_world 0] get_percentage_bounds [of hw1_world 0]
  by (simp add: hw1_world_fields empty_world_def)

text \<open>
  Claim C6. The grade of a course is 0 when it has no assignment or when the maximum
  points of its assignments sum to 0, and otherwise the sum of the scores divided by the
  sum of the maximum points, times 100. The course with the assignments (8 of 10) and
  (18 of 20) has the grade (8 + 18) / (10 + 20) * 100.
\<close>

theorem calculate_grade_spec:
  "calculate_grade w c =
     (if assignments (course_obj w c) = [] \<or>
         sum_list (map (\<lambda>a. max_points (assignment_obj w a)) (assignments (course_obj w c))) = 0
      then 0
      else sum_list (map (\<lambda>a. score (assignment_obj w a)) (assignments (course_obj w c))) /
           sum_list (map (\<lambda>a. max_points (assignment_obj w a)) (assignments (course_obj w c))) * 100) \<and>
   map (\<lambda>a. (score (assignment_obj hw2_world a), max_points (assignment_obj hw2_world a)))
       (assignments (course_obj hw2_world 0)) = [(8, 10), (18, 20)] \<and>
   calculate_grade hw2_world 0 = (8 + 18) / (10 + 20) * 100"
  by (simp add: calculate_grade_def Let_def hw2_world_fields)

text \<open>
  Claim C5. The letter grade of a course follows its grade percentage through descending
  thresholds with inclusive lower bounds, the first match winning: A from 90, B from 80,
  C from 70, D from 60, F below. A grade of exactly 90 gives A, 89.999 gives B and 59.999
  gives F.
\<close>

theorem get_letter_grade_bands:
  "get_letter_grade w c =
     (if calculate_grade w c \<ge> 90 then ''A''
      else if calculate_grade w c \<ge> 80 then ''B''
      else if calculate_grade w c \<ge> 70 then ''C''
      else if calculate_grade w c \<ge> 60 then ''D'' else ''F'') \<and>
   (calculate_grade w c = 90 \<longrightarrow> get_letter_grade w c = ''A'') \<and>
   (calculate_grade w c = 89.999 \<longrightarrow> get_letter_grade w c = ''B'') \<and>
   (calculate_grade w c = 59.999 \<longrightarrow> get_letter_grade w c = ''F'')"
  by (simp add: get_letter_grade_def Let_def)

theorem get_letter_grade_bands_witness:
  "calculate_grade (one_exam_world 90 100) 0 = 90 \<and>
   get_letter_grade (one_exam_world 90 100) 0 = ''A'' \<and>
   calculate_grade (one_exam_world 89.999 100) 0 = 89.999 \<and>
   get_letter_grade (one_exam_world 89.999 100) 0 = ''B'' \<and>
   calculate_grade (one_exam_world 59.999 100) 0 = 59.999 \<and>
   get_letter_grade (one_exam_world 59.999 100) 0 = ''F''"
proof -
  have a: "calculate_grade (one_exam_world 90 100) 0 = 90"
    by (simp add: calculate_grade_def one_exam_world_fields)
  have b: "calculate_grade (one_exam_world 89.999 100) 0 = 89.999"
    by (simp add: calculate_grade_def one_exam_world_fields)
  have f: "calculate_grade (one_exam_world 59.999 100) 0 = 59.999"
    by (simp add: calculate_grade_def one_exam_world_fields)
  show ?thesis
    using get_letter_grade_bands [of "one_exam_world 90 100" 0]
      get_letter_grade_bands [of "one_exam_world 89.999 100" 0]
      get_letter_grade_bands [of "one_exam_world 59.999 100" 0] a b f
    by simp
qed


subsection \<open>Validation in add_assignment\<close>

text \<open>
  Claim C2. \<^verbatim>\<open>add_assignment\<close> raises (a \<^verbatim>\<open>ValueError\<close>, the validation error of
  the specification) exactly when the stripped name is empty, or max_points \<le> 0, or
  score < 0, or score > max_points. The checks run in this order, which decides the
  message when several fail. When it raises, the world (objects, course list and both
  files) is the one it was called in.
\<close>

theorem add_assignment_validation:
  "((\<exists>msg. fst (add_assignment py w c n s m) = Inl (ValueError msg)) \<longleftrightarrow>
      (strip n = [] \<or> m \<le> 0 \<or> s < 0 \<or> s > m)) \<and>
   ((\<exists>a. fst (add_assignment py w c n s m) = Inr a) \<longleftrightarrow>
      \<not> (strip n = [] \<or> m \<le> 0 \<or> s < 0 \<or> s > m)) \<and>
   (strip n = [] \<longrightarrow>
      fst (add_assignment py w c n s m) = Inl (ValueError ''Assignment name cannot be empty'')) \<and>
   (strip n \<noteq> [] \<and> m \<le> 0 \<longrightarrow>
      fst (add_assignment py w c n s m) = Inl (ValueError ''Max points must be greater than 0'')) \<and>
   (strip n \<noteq> [] \<and> 0 < m \<and> s < 0 \<longrightarrow>
      fst (add_assignment py w c n s m) = Inl (ValueError ''Score cannot be negative'')) \<and>
   (strip n \<noteq> [] \<and> 0 < m \<and> 0 \<le> s \<and> s > m \<longrightarrow>
      fst (add_assignment py w c n s m) = Inl (ValueError ''Score cannot exceed max points'')) \<and>
   (\<forall>e. fst (add_assignment py w c n s m) = Inl e \<longrightarrow> snd (add_assignment py w c n s m) = w)"
  by (simp add: add_assignment_def Let_def split: prod.splits)

theorem add_assignment_validation_witness:
  "add_assignment demo_python algorithms_world 0 ''HW'' 5 0 =
     (Inl (ValueError ''Max points must be greater than 0''), algorithms_world) \<and>
   add_assignment demo_python algorithms_world 0 ''HW'' (- 1) 10 =
     (Inl (ValueError ''Score cannot be negative''), algorithms_world) \<and>
   add_assignment demo_python algorithms_world 0 ''HW'' 10.01 10 =
     (Inl (ValueError ''Score cannot exceed max points''), algorithms_world) \<and>
   add_assignment demo_python algorithms_world 0 ''  '' 5 10 =
     (Inl (ValueError ''Assignment name cannot be empty''), algorithms_world) \<and>
   add_assignment demo_python algorithms_world 0 ''  '' (- 1) 0 =
     (Inl (ValueError ''Assignment name cannot be empty''), algorithms_world) \<and>
   add_assignment demo_python algorithms_world 0 ''HW'' (- 1) 0 =
     (Inl (ValueError ''Max points must be greater than 0''), algorithms_world) \<and>
   add_assignment demo_python algorithms_world 0 ''HW'' 11 (- 1) =
     (Inl (ValueError ''Max points must be greater than 0''), algorithms_world) \<and>
   (\<exists>a. fst (add_assignment demo_python algorithms_world 0 ''HW'' 8 10) = Inr a)"
proof -
  have n: "strip ''HW'' \<noteq> []" "strip ''  '' = []"
    by (simp_all add: strip_def is_space_def)
  show ?thesis
    using add_assignment_validation [of demo_python algorithms_world 0 "''HW''" 5 0]
      add_assignment_validation [of demo_python algorithms_world 0 "''HW''" "- 1" 10]
      add_assignment_validation [of demo_python algorithms_world 0 "''HW''" "10.01" 10]
      add_assignment_validation [of demo_python algorithms_world 0 "''  ''" 5 10]
      add_assignment_validation [of demo_python algorithms_world 0 "''  ''" "- 1" 0]
      add_assignment_validation [of demo_python algorithms_world 0 "''HW''" "- 1" 0]
      add_assignment_validation [of demo_python algorithms_world 0 "''HW''" 11 "- 1"]
      add_assignment_validation [of demo_python algorithms_world 0 "''HW''" 8 10]
    by (simp add: n prod_eq_iff)
qed

subsection \<open>Course ids\<close>

lemma fold_max_ge: "(x::int) \<le> fold max ys x \<and> (\<forall>y \<in> set ys. y \<le> fold max ys x)"
proof (induction ys arbitrary: x)
  case Nil
  then show ?case by simp
next
  case (Cons y ys)
  have "max y x \<le> fold max ys (max y x)" using Cons.IH by blast
  then have "x \<le> fold max ys (max y x)" "y \<le> fold max ys (max y x)" by simp_all
  with Cons.IH show ?case by simp
qed

lemma max_default_ge: "x \<in> set xs \<Longrightarrow> x \<le> max_default xs d"
  using fold_max_ge by (cases xs) (auto simp: max_default_def)

text \<open>
  Claim C1, as stated, fails: a new id can equal the id of a deleted course. After
  Algorithms (id 1) and Databases (id 2), deleting Databases and adding Compilers gives
  Compilers the id 2 again.
\<close>

theorem add_course_reuses_deleted_id:
  "1 \<in> set (courses databases_world) \<and>
   course_id (course_obj databases_world 1) = 2 \<and>
   deleted_world = delete_course demo_python databases_world 1 \<and>
   1 \<notin> set (courses deleted_world) \<and>
   add_course demo_python deleted_world ''Compilers'' = (Inr 2, compilers_world) \<and>
   course_id (course_obj compilers_world 2) = course_id (course_obj databases_world 1)"
  by (simp add: databases_world_fields deleted_world_fields compilers_world_fields prod_eq_iff)
    (simp add: deleted_world_def compilers_world_def)

text \<open>
  Claim C1, amended. In every world (so after every sequence of \<^verbatim>\<open>add_course\<close> and
  \<^verbatim>\<open>delete_course\<close>), the id given to a new course is the maximum of the ids of the
  courses in the collection (0 when there is none) plus 1: it exceeds the id of every
  course in the collection, and the new course is appended to the collection.
\<close>

theorem add_course_id_exceeds_present:
  "add_course py w n = (Inr c, w') \<Longrightarrow>
     course_id (course_obj w' c) =
       max_default (map (\<lambda>r. course_id (course_obj w r)) (courses w)) 0 + 1 \<and>
     (\<forall>r \<in> set (courses w). course_id (course_obj w r) < course_id (course_obj w' c)) \<and>
     courses w' = courses w @ [c]"
proof -
  assume a: "add_course py w n = (Inr c, w')"
  then have ne: "strip n \<noteq> []"
    by (auto simp: add_course_def split: if_splits)
  from a ne have 1: "course_id (course_obj w' c) =
           max_default (map (\<lambda>r. course_id (course_obj w r)) (courses w)) 0 + 1"
    by (auto simp: add_course_def new_Course_def Let_def save_all_data_def
        save_all_courses_def save_all_assignments_def)
  have 2: "\<forall>r \<in> set (courses w). course_id (course_obj w r) < course_id (course_obj w' c)"
  proof
    fix r assume "r \<in> set (courses w)"
    then have "course_id (course_obj w r) \<in> set (map (\<lambda>r. course_id (course_obj w r)) (courses w))"
      by simp
    from max_default_ge [OF this, of 0] show "course_id (course_obj w r) < course_id (course_obj w' c)"
      unfolding 1 by simp
  qed
  from a ne have 3: "courses w' = courses w @ [c]"
    by (auto simp: add_course_def new_Course_def Let_def save_all_data_def
        save_all_courses_def save_all_assignments_def)
  from 1 2 3 show ?thesis by blast
qed

theorem add_course_id_exceeds_present_witness:
  "add_course demo_python deleted_world ''Compilers'' = (Inr 2, compilers_world) \<and>
   courses deleted_world = [0] \<and>
   course_id (course_obj deleted_world 0) = 1 \<and>
   course_id (course_obj compilers_world 2) = 2 \<and>
   courses compilers_world = [0, 2]"
proof -
  have a: "add_course demo_python deleted_world ''Compilers'' = (Inr 2, compilers_world)"
    by (simp add: prod_eq_iff compilers_world_fields) (simp add: compilers_world_def)
  from add_course_id_exceeds_present [OF a] a show ?thesis
    by (simp add: deleted_world_fields max_default_def)
qed

subsection \<open>The overall GPA\<close>

lemma courses_save_all_data [simp]: "courses (save_all_data py w) = courses w"
  by (simp add: save_all_data_def save_all_courses_def save_all_assignments_def)

lemma course_obj_save_all_data [simp]: "course_obj (save_all_data py w) = course_obj w"
  by (simp add: save_all_data_def save_all_courses_def save_all_assignments_def)

lemma assignment_obj_save_all_data [simp]: "assignment_obj (save_all_data py w) = assignment_obj w"
  by (simp add: save_all_data_def save_all_courses_def save_all_assignments_def)

text \<open>
  Claim C8. The overall GPA is the arithmetic mean of the GPA of the courses of the
  collection, and 0 when there is none. After the only course is deleted,
  \<^verbatim>\<open>get_all_courses\<close> does not contain it and the overall GPA is 0.
\<close>

theorem overall_gpa_mean:
  "calculate_overall_gpa w =
     (if courses w = [] then 0
      else sum_list (map (calculate_gpa w) (courses w)) / real (length (courses w))) \<and>
   (courses w = [c] \<longrightarrow>
      c \<notin> set (get_all_courses (delete_course py w c)) \<and>
      calculate_overall_gpa (delete_course py w c) = 0)"
  by (simp add: calculate_overall_gpa_def Let_def delete_course_def get_all_courses_def)

theorem overall_gpa_mean_witness:
  "courses hw2_world = [0] \<and> calculate_overall_gpa hw2_world = 3 \<and>
   get_all_courses (delete_course demo_python hw2_world 0) = [] \<and>
   calculate_overall_gpa (delete_course demo_python hw2_world 0) = 0 \<and>
   courses databases_world = [0, 1] \<and> calculate_overall_gpa databases_world = (0 + 0) / 2"
  using overall_gpa_mean [of hw2_world 0 demo_python] overall_gpa_mean [of databases_world 0 demo_python]
  by (simp add: hw2_world_fields databases_world_fields calculate_gpa_def get_letter_grade_def
      calculate_grade_def grade_scale_def get_all_courses_def delete_course_def)

subsection \<open>Which deletions save\<close>

text \<open>
  Claim C10. \<^verbatim>\<open>delete_assignment\<close> always rewrites both files from the objects in
  memory, whatever the files held before; when the assignment is not in the course's
  list, the objects and the course list are unchanged by it. \<^verbatim>\<open>delete_course\<close> of
  a course that is not in the collection changes nothing, the files included.
\<close>

theorem delete_assignment_saves_delete_course_guarded:
  "courses_file (delete_assignment py w c a) =
     Some (courses_header #
       map (course_row (delete_assignment py w c a)) (courses (delete_assignment py w c a))) \<and>
   assignments_file (delete_assignment py w c a) =
     Some (assignments_header #
       concat (map (\<lambda>r. map (assignment_row py (delete_assignment py w c a))
                            (assignments (course_obj (delete_assignment py w c a) r)))
                   (courses (delete_assignment py w c a)))) \<and>
   (a \<notin> set (assignments (course_obj w c)) \<longrightarrow>
      course_obj (delete_assignment py w c a) = course_obj w \<and>
      assignment_obj (delete_assignment py w c a) = assignment_obj w \<and>
      courses (delete_assignment py w c a) = courses w) \<and>
   (c \<notin> set (courses w) \<longrightarrow> delete_course py w c = w)"
proof -
  have cr: "\<And>u v. course_obj u = course_obj v \<Longrightarrow> course_row u = course_row v"
    by (rule ext) (simp add: course_row_def)
  have 1: "\<And>u. courses_file (save_all_data py u) = Some (courses_header # map (course_row u) (courses u))"
    by (simp add: save_all_data_def save_all_courses_def save_all_assignments_def)
  have ar: "\<And>u v. assignment_obj u = assignment_obj v \<Longrightarrow> assignment_row py u = assignment_row py v"
    by (rule ext) (simp add: assignment_row_def)
  have 2: "\<And>u. assignments_file (save_all_data py u) =
     Some (assignments_header #
       concat (map (\<lambda>r. map (assignment_row py u) (assignments (course_obj u r))) (courses u)))"
    by (simp add: save_all_data_def save_all_courses_def save_all_assignments_def
        ar [of "u\<lparr>courses_file := v\<rparr>" u for u v])
  have 4: "a \<notin> set (assignments (course_obj w c)) \<Longrightarrow> remove_assignment c a w = w"
    by (simp add: remove_assignment_def)
  show ?thesis
    using 4
    by (auto simp: delete_assignment_def 1 2 delete_course_def
        cr [of "save_all_data py u" u for u] ar [of "save_all_data py u" u for u])
qed

theorem delete_assignment_saves_delete_course_guarded_witness:
  "1 \<notin> set (assignments (course_obj dangling_world 0)) \<and>
   assignments_file dangling_world =
     Some [assignments_header, [''1'', ''1'', ''HW1'', ''8'', ''10''],
           [''2'', ''7'', ''Lost'', ''18'', ''20'']] \<and>
   assignments_file (delete_assignment demo_python dangling_world 0 1) =
     Some [assignments_header, [''1'', ''1'', ''HW1'', ''8'', ''10'']] \<and>
   courses (delete_assignment demo_python dangling_world 0 1) = courses dangling_world \<and>
   course_obj (delete_assignment demo_python dangling_world 0 1) = course_obj dangling_world \<and>
   1 \<notin> set (courses deleted_world) \<and>
   delete_course demo_python deleted_world 1 = deleted_world"
proof -
  have r: "assignment_obj dangling_world 0 =
      \<lparr>assignment_id = 1, a_course_id = 1, a_name = Some ''HW1'', score = 8, max_points = 10\<rparr>"
    by (simp add: dangling_world_def dangling_files_def run_defs parse_defs empty_world_def)
  show ?thesis
    using delete_assignment_saves_delete_course_guarded [of demo_python dangling_world 0 1]
      delete_assignment_saves_delete_course_guarded [of demo_python deleted_world 1 0]
    by (simp add: dangling_world_fields deleted_world_fields r assignment_row_def str_int_def
        str_nat.simps
        digit_char_def csv_text_def demo_python_def)
qed

subsection \<open>int(str(i)) = i\<close>

lemma digit_val_digit_char: "d < 10 \<Longrightarrow> digit_val (digit_char d) = Some d"
proof -
  assume "d < 10"
  then have "d = 0 \<or> d = 1 \<or> d = 2 \<or> d = 3 \<or> d = 4 \<or> d = 5 \<or> d = 6 \<or> d = 7 \<or> d = 8 \<or> d = 9"
    by arith
  then show ?thesis
    by (elim disjE) (simp_all add: digit_char_def digit_val_unfold)
qed

lemma digit_val_not_space: "digit_val c = Some d \<Longrightarrow> \<not> is_space c"
  by (auto simp: digit_val_unfold is_space_def split: if_splits)

lemma digit_val_not_sign: "digit_val c = Some d \<Longrightarrow> c \<noteq> CHR ''-'' \<and> c \<noteq> CHR ''+''"
  by (auto simp: digit_val_unfold split: if_splits)

lemma more_digits_digit:
  "digit_val c = Some d \<Longrightarrow> more_digits acc (c # cs) = more_digits (10 * acc + d) cs"
  by (cases cs) simp_all

lemma more_digits_snoc:
  "digit_val c = Some d \<Longrightarrow> \<forall>x \<in> set xs. digit_val x \<noteq> None \<Longrightarrow>
   more_digits acc (xs @ [c]) = map_option (\<lambda>v. 10 * v + d) (more_digits acc xs)"
proof (induction xs arbitrary: acc)
  case Nil
  then show ?case by simp
next
  case (Cons x xs)
  then obtain e where e: "digit_val x = Some e" by auto
  show ?case
    using Cons by (simp add: more_digits_digit [OF e])
qed

lemma parse_nat_snoc:
  "digit_val c = Some d \<Longrightarrow> \<forall>x \<in> set xs. digit_val x \<noteq> None \<Longrightarrow> xs \<noteq> [] \<Longrightarrow>
   parse_nat (xs @ [c]) = map_option (\<lambda>v. 10 * v + d) (parse_nat xs)"
  by (cases xs) (auto simp: parse_nat_def more_digits_snoc)

lemma str_nat_digits: "str_nat n \<noteq> [] \<and> (\<forall>x \<in> set (str_nat n). digit_val x \<noteq> None)"
proof (induction n rule: str_nat.induct)
  case (1 n)
  show ?case
  proof (cases "n < 10")
    case True
    then show ?thesis by (simp add: str_nat.simps [of n] digit_val_digit_char)
  next
    case False
    have "n mod 10 < 10" by simp
    from digit_val_digit_char [OF this] False 1 show ?thesis
      by (simp add: str_nat.simps [of n])
  qed
qed

lemma parse_nat_str_nat: "parse_nat (str_nat n) = Some n"
proof (induction n rule: str_nat.induct)
  case (1 n)
  show ?case
  proof (cases "n < 10")
    case True
    then show ?thesis by (simp add: str_nat.simps [of n] parse_nat_def digit_val_digit_char)
  next
    case False
    have d: "digit_val (digit_char (n mod 10)) = Some (n mod 10)"
      by (simp add: digit_val_digit_char)
    have "parse_nat (str_nat (n div 10) @ [digit_char (n mod 10)]) =
            map_option (\<lambda>v. 10 * v + n mod 10) (parse_nat (str_nat (n div 10)))"
      using str_nat_digits [of "n div 10"] by (intro parse_nat_snoc [OF d]) auto
    also have "\<dots> = Some n" using 1 False by simp
    finally show ?thesis using False by (simp add: str_nat.simps [of n])
  qed
qed

lemma strip_no_outer_space:
  "s \<noteq> [] \<Longrightarrow> \<not> is_space (hd s) \<Longrightarrow> \<not> is_space (last s) \<Longrightarrow> strip s = s"
proof -
  assume s: "s \<noteq> []" and h: "\<not> is_space (hd s)" and l: "\<not> is_space (last s)"
  from s h have 1: "dropWhile is_space s = s" by (cases s) auto
  from s l have 2: "dropWhile is_space (rev s) = rev s" by (cases "rev s") (auto simp: last_rev [symmetric] hd_rev)
  show ?thesis by (simp add: strip_def 1 2)
qed

lemma str_nat_ends:
  "\<not> is_space (hd (str_nat n))" "\<not> is_space (last (str_nat n))"
  using str_nat_digits [of n] digit_val_not_space
  by (metis hd_in_set option.exhaust, metis last_in_set option.exhaust)

lemma py_int_str_int: "py_int (str_int i) = Inr i"
proof (cases "i < 0")
  case True
  have ne: "str_nat (nat (- i)) \<noteq> []" using str_nat_digits by blast
  have "strip (CHR ''-'' # str_nat (nat (- i))) = CHR ''-'' # str_nat (nat (- i))"
    using ne str_nat_ends(2) [of "nat (- i)"] by (intro strip_no_outer_space) (auto simp: is_space_def)
  with True show ?thesis
    by (simp add: py_int_def str_int_def parse_nat_str_nat)
next
  case False
  obtain c cs where c: "str_nat (nat i) = c # cs"
    using str_nat_digits [of "nat i"] by (cases "str_nat (nat i)") auto
  then obtain d where "digit_val c = Some d"
    using str_nat_digits [of "nat i"] by auto
  then have sg: "c \<noteq> CHR ''-''" "c \<noteq> CHR ''+''" using digit_val_not_sign by blast+
  have "strip (str_nat (nat i)) = str_nat (nat i)"
    using str_nat_digits [of "nat i"] str_nat_ends [of "nat i"] by (intro strip_no_outer_space) auto
  then have st: "strip (c # cs) = c # cs" by (simp add: c)
  have "parse_nat (c # cs) = Some (nat i)" using parse_nat_str_nat [of "nat i"] c by simp
  with False sg show ?thesis
    by (simp add: py_int_def str_int_def st Let_def c)
qed

subsection \<open>Loading and linking\<close>

lemma link_assignment_find:
  "link_assignment a cs w =
     (case find (\<lambda>c. course_id (course_obj w c) = a_course_id (assignment_obj w a)) cs of
        None \<Rightarrow> w | Some c \<Rightarrow> Course_add_assignment c a w)"
  by (induction cs) auto

lemma Course_add_assignment_frame:
  "courses (Course_add_assignment c a w) = courses w"
  "assignment_obj (Course_add_assignment c a w) = assignment_obj w"
  "course_id (course_obj (Course_add_assignment c a w) r) = course_id (course_obj w r)"
  "name (course_obj (Course_add_assignment c a w) r) = name (course_obj w r)"
  "courses_file (Course_add_assignment c a w) = courses_file w"
  "assignments_file (Course_add_assignment c a w) = assignments_file w"
  "next_course (Course_add_assignment c a w) = next_course w"
  "next_assignment (Course_add_assignment c a w) = next_assignment w"
  "assignments (course_obj (Course_add_assignment c a w) r) =
     assignments (course_obj w r) @ (if r = c then [a] else [])"
  by (simp_all add: Course_add_assignment_def)

lemma link_assignment_frame:
  "courses (link_assignment a cs w) = courses w"
  "assignment_obj (link_assignment a cs w) = assignment_obj w"
  "course_id (course_obj (link_assignment a cs w) r) = course_id (course_obj w r)"
  "name (course_obj (link_assignment a cs w) r) = name (course_obj w r)"
  "courses_file (link_assignment a cs w) = courses_file w"
  "assignments_file (link_assignment a cs w) = assignments_file w"
  "next_course (link_assignment a cs w) = next_course w"
  "next_assignment (link_assignment a cs w) = next_assignment w"
  by (simp_all add: link_assignment_find Course_add_assignment_frame split: option.splits)

lemma link_assignment_assignments:
  "assignments (course_obj (link_assignment a cs w) r) =
     assignments (course_obj w r) @
       (if find (\<lambda>c. course_id (course_obj w c) = a_course_id (assignment_obj w a)) cs = Some r
        then [a] else [])"
  by (auto simp: link_assignment_find Course_add_assignment_frame split: option.splits)

lemma link_assignments_frame:
  "courses (link_assignments as w) = courses w"
  "assignment_obj (link_assignments as w) = assignment_obj w"
  "course_id (course_obj (link_assignments as w) r) = course_id (course_obj w r)"
  "name (course_obj (link_assignments as w) r) = name (course_obj w r)"
  "courses_file (link_assignments as w) = courses_file w"
  "assignments_file (link_assignments as w) = assignments_file w"
  "next_course (link_assignments as w) = next_course w"
  "next_assignment (link_assignments as w) = next_assignment w"
  by (induction as arbitrary: w; simp add: link_assignment_frame)+

lemma link_assignments_assignments:
  "assignments (course_obj (link_assignments as w) r) =
     assignments (course_obj w r) @
       filter (\<lambda>a. find (\<lambda>c. course_id (course_obj w c) = a_course_id (assignment_obj w a))
                         (courses w) = Some r) as"
proof (induction as arbitrary: w)
  case Nil
  then show ?case by simp
next
  case (Cons a as)
  show ?case
    by (simp add: Cons.IH link_assignment_frame link_assignment_assignments)
qed

lemma new_Course_frame:
  "new_Course cid n w = (c, w') \<Longrightarrow>
     c = next_course w \<and> next_course w' = Suc (next_course w) \<and>
     course_obj w' = (course_obj w)(c := \<lparr>course_id = cid, name = n, assignments = []\<rparr>) \<and>
     assignment_obj w' = assignment_obj w \<and> next_assignment w' = next_assignment w \<and>
     courses w' = courses w \<and> courses_file w' = courses_file w \<and>
     assignments_file w' = assignments_file w"
  by (auto simp: new_Course_def)

lemma load_course_rows_fresh:
  "load_course_rows rows acc w = (Inr cs, w1) \<Longrightarrow>
     cs = acc @ [next_course w ..< next_course w1] \<and> next_course w \<le> next_course w1 \<and>
     (\<forall>r. next_course w \<le> r \<and> r < next_course w1 \<longrightarrow> assignments (course_obj w1 r) = []) \<and>
     (\<forall>r. r < next_course w \<longrightarrow> course_obj w1 r = course_obj w r) \<and>
     assignment_obj w1 = assignment_obj w \<and> next_assignment w1 = next_assignment w \<and>
     courses w1 = courses w \<and> courses_file w1 = courses_file w \<and>
     assignments_file w1 = assignments_file w"
proof (induction rows arbitrary: acc w)
  case Nil
  then show ?case by auto
next
  case (Cons row rows)
  from Cons.prems obtain cid n where v: "course_of_row row = Inr (cid, n)"
    by (auto split: sum.splits)
  obtain c w' where nc: "new_Course cid n w = (c, w')" by (cases "new_Course cid n w")
  note f = new_Course_frame [OF nc]
  from Cons.prems v nc have rec: "load_course_rows rows (acc @ [c]) w' = (Inr cs, w1)"
    by simp
  note ih = Cons.IH [OF rec]
  have le: "next_course w < next_course w1" using ih f by simp
  have "cs = acc @ [next_course w ..< next_course w1]"
    using ih f le by (simp add: upt_conv_Cons)
  moreover have "\<forall>r. next_course w \<le> r \<and> r < next_course w1 \<longrightarrow> assignments (course_obj w1 r) = []"
  proof (intro allI impI)
    fix r assume r: "next_course w \<le> r \<and> r < next_course w1"
    show "assignments (course_obj w1 r) = []"
    proof (cases "r = next_course w")
      case True
      then have "course_obj w1 r = course_obj w' r" using ih f by simp
      then show ?thesis using f True by simp
    next
      case False
      then show ?thesis using ih f r by simp
    qed
  qed
  moreover have "\<forall>r. r < next_course w \<longrightarrow> course_obj w1 r = course_obj w r"
    using ih f by simp
  ultimately show ?case using ih f le by simp
qed

lemma new_Assignment_frame:
  "new_Assignment aid cid n s m w = (a, w') \<Longrightarrow>
     a = next_assignment w \<and> next_assignment w' = Suc (next_assignment w) \<and>
     assignment_obj w' = (assignment_obj w)(a :=
        \<lparr>assignment_id = aid, a_course_id = cid, a_name = n, score = s, max_points = m\<rparr>) \<and>
     course_obj w' = course_obj w \<and> next_course w' = next_course w \<and>
     courses w' = courses w \<and> courses_file w' = courses_file w \<and>
     assignments_file w' = assignments_file w"
  by (auto simp: new_Assignment_def)

lemma load_assignment_rows_frame:
  "load_assignment_rows py rows acc w = (res, w2) \<Longrightarrow>
     course_obj w2 = course_obj w \<and> next_course w2 = next_course w \<and>
     courses w2 = courses w \<and> courses_file w2 = courses_file w \<and>
     assignments_file w2 = assignments_file w \<and> next_assignment w \<le> next_assignment w2 \<and>
     (\<forall>r. r < next_assignment w \<longrightarrow> assignment_obj w2 r = assignment_obj w r)"
proof (induction rows arbitrary: acc w)
  case Nil
  then show ?case by simp
next
  case (Cons row rows)
  show ?case
  proof (cases "assignment_of_row py row")
    case (Inl e)
    with Cons.prems show ?thesis by simp
  next
    case (Inr x)
    obtain a w' where na: "new_Assignment (assignment_id x) (a_course_id x) (a_name x) (score x) (max_points x) w = (a, w')"
      by (cases "new_Assignment (assignment_id x) (a_course_id x) (a_name x) (score x) (max_points x) w")
    note f = new_Assignment_frame [OF na]
    from Cons.prems Inr na have "load_assignment_rows py rows (acc @ [a]) w' = (res, w2)" by simp
    from Cons.IH [OF this] f show ?thesis by simp
  qed
qed

lemma load_courses_fresh:
  "load_courses w = (Inr cs, w1) \<Longrightarrow>
     (\<forall>c \<in> set cs. assignments (course_obj w1 c) = []) \<and>
     cs = [next_course w ..< next_course w1] \<and>
     assignment_obj w1 = assignment_obj w \<and> next_assignment w1 = next_assignment w \<and>
     courses w1 = courses w \<and> courses_file w1 = courses_file w \<and>
     assignments_file w1 = assignments_file w"
proof (cases "courses_file w")
  case None
  assume "load_courses w = (Inr cs, w1)"
  with None show ?thesis by (auto simp: load_courses_def)
next
  case (Some f)
  assume "load_courses w = (Inr cs, w1)"
  with Some have "load_course_rows (DictReader f) [] w = (Inr cs, w1)"
    by (simp add: load_courses_def)
  from load_course_rows_fresh [OF this] show ?thesis by auto
qed

lemma load_assignments_frame:
  "load_assignments py w = (res, w2) \<Longrightarrow>
     course_obj w2 = course_obj w \<and> next_course w2 = next_course w \<and>
     courses w2 = courses w \<and> courses_file w2 = courses_file w \<and>
     assignments_file w2 = assignments_file w \<and> next_assignment w \<le> next_assignment w2 \<and>
     (\<forall>r. r < next_assignment w \<longrightarrow> assignment_obj w2 r = assignment_obj w r)"
proof (cases "assignments_file w")
  case None
  assume "load_assignments py w = (res, w2)"
  with None show ?thesis by (auto simp: load_assignments_def)
next
  case (Some f)
  assume "load_assignments py w = (res, w2)"
  with Some have "load_assignment_rows py (DictReader f) [] w = (res, w2)"
    by (simp add: load_assignments_def)
  from load_assignment_rows_frame [OF this] show ?thesis by auto
qed

text \<open>
  Claim C4. When both stores load, \<^verbatim>\<open>load_all_data\<close> raises nothing, and the list of
  every loaded course holds exactly the loaded assignments whose first course of equal
  \<^verbatim>\<open>course_id\<close> (in load order) it is, in load order. An assignment whose
  \<^verbatim>\<open>course_id\<close> no loaded course has is in no course's list.
\<close>

theorem load_all_data_links_first_match:
  "fst (load_courses w) = Inr cs \<Longrightarrow>
   fst (load_assignments py ((snd (load_courses w))\<lparr>courses := cs\<rparr>)) = Inr as \<Longrightarrow>
   fst (load_all_data py w) = Inr () \<and>
   courses (snd (load_all_data py w)) = cs \<and>
   (\<forall>c \<in> set cs.
      assignments (course_obj (snd (load_all_data py w)) c) =
        filter (\<lambda>a. find (\<lambda>c'. course_id (course_obj (snd (load_all_data py w)) c') =
                                a_course_id (assignment_obj (snd (load_all_data py w)) a)) cs = Some c)
               as) \<and>
   (\<forall>a \<in> set as.
      (\<forall>c \<in> set cs. course_id (course_obj (snd (load_all_data py w)) c) \<noteq>
                       a_course_id (assignment_obj (snd (load_all_data py w)) a)) \<longrightarrow>
      (\<forall>c \<in> set cs. a \<notin> set (assignments (course_obj (snd (load_all_data py w)) c))))"
proof -
  assume a1: "fst (load_courses w) = Inr cs"
    and a2: "fst (load_assignments py ((snd (load_courses w))\<lparr>courses := cs\<rparr>)) = Inr as"
  define w1 where "w1 = snd (load_courses w)"
  define w2 where "w2 = snd (load_assignments py (w1\<lparr>courses := cs\<rparr>))"
  define w' where "w' = link_assignments as w2"
  have lc: "load_courses w = (Inr cs, w1)" using a1 by (simp add: w1_def prod_eq_iff)
  have la: "load_assignments py (w1\<lparr>courses := cs\<rparr>) = (Inr as, w2)"
    using a2 by (simp add: w1_def w2_def prod_eq_iff)
  have res: "load_all_data py w = (Inr (), w')"
    by (simp add: load_all_data_def lc la w'_def)
  note f1 = load_courses_fresh [OF lc]
  note f2 = load_assignments_frame [OF la]
  have cw2: "courses w2 = cs" using f2 by simp
  have id: "\<And>c. course_id (course_obj w' c) = course_id (course_obj w2 c)"
    by (simp add: w'_def link_assignments_frame)
  have ao: "assignment_obj w' = assignment_obj w2"
    by (simp add: w'_def link_assignments_frame)
  have lists: "\<And>c. c \<in> set cs \<Longrightarrow> assignments (course_obj w' c) =
      filter (\<lambda>a. find (\<lambda>c'. course_id (course_obj w' c') = a_course_id (assignment_obj w' a)) cs = Some c) as"
  proof -
    fix c assume "c \<in> set cs"
    then have "assignments (course_obj w2 c) = []" using f1 f2 by simp
    then show "assignments (course_obj w' c) =
      filter (\<lambda>a. find (\<lambda>c'. course_id (course_obj w' c') = a_course_id (assignment_obj w' a)) cs = Some c) as"
      by (simp add: id ao) (simp add: w'_def link_assignments_assignments cw2)
  qed
  have dropped: "\<And>a c. c \<in> set cs \<Longrightarrow>
      \<forall>c \<in> set cs. course_id (course_obj w' c) \<noteq> a_course_id (assignment_obj w' a) \<Longrightarrow>
      a \<notin> set (assignments (course_obj w' c))"
  proof -
    fix a c assume c: "c \<in> set cs"
      and no: "\<forall>c \<in> set cs. course_id (course_obj w' c) \<noteq> a_course_id (assignment_obj w' a)"
    from no have "find (\<lambda>c'. course_id (course_obj w' c') = a_course_id (assignment_obj w' a)) cs = None"
      by (simp add: find_None_iff)
    then show "a \<notin> set (assignments (course_obj w' c))"
      by (simp add: lists [OF c])
  qed
  have "courses w' = cs" by (simp add: w'_def link_assignments_frame cw2)
  with lists dropped show ?thesis by (simp add: res)
qed

theorem load_all_data_links_first_match_witness:
  "fst (load_courses duplicate_files) = Inr [0, 1, 2] \<and>
   fst (load_assignments demo_python ((snd (load_courses duplicate_files))\<lparr>courses := [0, 1, 2]\<rparr>)) =
     Inr [0, 1, 2] \<and>
   fst (load_all_data demo_python duplicate_files) = Inr () \<and>
   courses (snd (load_all_data demo_python duplicate_files)) = [0, 1, 2] \<and>
   map (\<lambda>c. course_id (course_obj (snd (load_all_data demo_python duplicate_files)) c)) [0, 1, 2] =
     [1, 1, 2] \<and>
   map (\<lambda>a. a_course_id (assignment_obj (snd (load_all_data demo_python duplicate_files)) a)) [0, 1, 2] =
     [1, 2, 7] \<and>
   map (\<lambda>c. assignments (course_obj (snd (load_all_data demo_python duplicate_files)) c)) [0, 1, 2] =
     [[0], [], [1]]"
proof -
  have 1: "fst (load_courses duplicate_files) = Inr [0, 1, 2]"
    by (simp add: duplicate_files_def run_defs parse_defs empty_world_def)
  have 2: "fst (load_assignments demo_python ((snd (load_courses duplicate_files))\<lparr>courses := [0, 1, 2]\<rparr>)) =
     Inr [0, 1, 2]"
    by (simp add: duplicate_files_def run_defs parse_defs empty_world_def)
  have 3: "map (\<lambda>c. course_id (course_obj (snd (load_all_data demo_python duplicate_files)) c)) [0, 1, 2] =
     [1, 1, 2]"
    by (simp add: duplicate_files_def run_defs parse_defs empty_world_def)
  have 4: "map (\<lambda>a. a_course_id (assignment_obj (snd (load_all_data demo_python duplicate_files)) a)) [0, 1, 2] =
     [1, 2, 7]"
    by (simp add: duplicate_files_def run_defs parse_defs empty_world_def)
  from load_all_data_links_first_match [OF 1 2] 1 2 3 4 show ?thesis
    by simp
qed

subsection \<open>Saving, then loading\<close>

lemma course_row_cong: "course_obj u = course_obj v \<Longrightarrow> course_row u = course_row v"
  by (rule ext) (simp add: course_row_def)

lemma assignment_row_cong:
  "assignment_obj u = assignment_obj v \<Longrightarrow> assignment_row py u = assignment_row py v"
  by (rule ext) (simp add: assignment_row_def)

lemma courses_file_save_all_data:
  "courses_file (save_all_data py w) = Some (courses_header # map (course_row w) (courses w))"
  by (simp add: save_all_data_def save_all_courses_def save_all_assignments_def)

lemma assignments_file_save_all_data:
  "assignments_file (save_all_data py w) =
     Some (assignments_header #
       concat (map (\<lambda>c. map (assignment_row py w) (assignments (course_obj w c))) (courses w)))"
  by (simp add: save_all_data_def save_all_courses_def save_all_assignments_def
      assignment_row_cong [of "w\<lparr>courses_file := v\<rparr>" w for v])

lemma next_save_all_data [simp]:
  "next_course (save_all_data py w) = next_course w"
  "next_assignment (save_all_data py w) = next_assignment w"
  by (simp_all add: save_all_data_def save_all_courses_def save_all_assignments_def)

lemma course_of_row_course_row:
  "name (course_obj w c) \<noteq> None \<Longrightarrow>
   course_of_row (mk_dict courses_header (course_row w c)) =
     Inr (course_id (course_obj w c), name (course_obj w c))"
  by (auto simp: course_of_row_def mk_dict_def courses_header_def course_row_def dict_get_def
      int_of_field_def py_int_str_int csv_text_def)

lemma assignment_of_row_assignment_row:
  "a_name (assignment_obj w a) \<noteq> None \<Longrightarrow>
   py_float py (str_num py (score (assignment_obj w a))) = Inr (score (assignment_obj w a)) \<Longrightarrow>
   py_float py (str_num py (max_points (assignment_obj w a))) = Inr (max_points (assignment_obj w a)) \<Longrightarrow>
   assignment_of_row py (mk_dict assignments_header (assignment_row py w a)) = Inr (assignment_obj w a)"
  by (auto simp: assignment_of_row_def mk_dict_def assignments_header_def assignment_row_def
      dict_get_def int_of_field_def float_of_field_def py_int_str_int csv_text_def)

lemma upt_add_Suc: "[n ..< n + Suc k] = n # [Suc n ..< Suc n + k]"
  by (simp add: upt_conv_Cons del: upt_Suc)

lemma load_course_rows_ok:
  "map course_of_row rows = map Inr vals \<Longrightarrow>
   \<exists>w1. load_course_rows rows acc w =
           (Inr (acc @ [next_course w ..< next_course w + length vals]), w1) \<and>
        map (course_obj w1) [next_course w ..< next_course w + length vals] =
          map (\<lambda>(i, n). \<lparr>course_id = i, name = n, assignments = []\<rparr>) vals"
proof (induction rows arbitrary: vals acc w)
  case Nil
  then show ?case by simp
next
  case (Cons row rows)
  from Cons.prems obtain i n vs where vals: "vals = (i, n) # vs"
    and row: "course_of_row row = Inr (i, n)" and rows: "map course_of_row rows = map Inr vs"
    by (cases vals) auto
  obtain c w' where nc: "new_Course i n w = (c, w')" by (cases "new_Course i n w")
  note f = new_Course_frame [OF nc]
  from Cons.IH [OF rows, of "acc @ [c]" w'] obtain w1 where
    l: "load_course_rows rows (acc @ [c]) w' =
          (Inr ((acc @ [c]) @ [next_course w' ..< next_course w' + length vs]), w1)"
    and m: "map (course_obj w1) [next_course w' ..< next_course w' + length vs] =
          map (\<lambda>(i, n). \<lparr>course_id = i, name = n, assignments = []\<rparr>) vs"
    by blast
  from load_course_rows_fresh [OF l] f have "course_obj w1 (next_course w) = course_obj w' (next_course w)"
    by simp
  with f have h: "course_obj w1 (next_course w) = \<lparr>course_id = i, name = n, assignments = []\<rparr>"
    by simp
  have u: "[next_course w ..< next_course w + length vals] =
             next_course w # [next_course w' ..< next_course w' + length vs]"
    using f upt_add_Suc [of "next_course w" "length vs"] by (simp add: vals del: upt_Suc)
  have "load_course_rows (row # rows) acc w =
          (Inr (acc @ [next_course w ..< next_course w + length vals]), w1)"
    using l f by (simp add: row nc u)
  moreover have "map (course_obj w1) [next_course w ..< next_course w + length vals] =
          map (\<lambda>(i, n). \<lparr>course_id = i, name = n, assignments = []\<rparr>) vals"
    unfolding u using m h by (simp add: vals)
  ultimately show ?case by blast
qed

lemma load_assignment_rows_ok:
  "map (assignment_of_row py) rows = map Inr xs \<Longrightarrow>
   \<exists>w2. load_assignment_rows py rows acc w =
           (Inr (acc @ [next_assignment w ..< next_assignment w + length xs]), w2) \<and>
        map (assignment_obj w2) [next_assignment w ..< next_assignment w + length xs] = xs"
proof (induction rows arbitrary: xs acc w)
  case Nil
  then show ?case by simp
next
  case (Cons row rows)
  from Cons.prems obtain x ys where xs: "xs = x # ys"
    and row: "assignment_of_row py row = Inr x"
    and rows: "map (assignment_of_row py) rows = map Inr ys"
    by (cases xs) auto
  obtain a w' where na:
    "new_Assignment (assignment_id x) (a_course_id x) (a_name x) (score x) (max_points x) w = (a, w')"
    by (cases "new_Assignment (assignment_id x) (a_course_id x) (a_name x) (score x) (max_points x) w")
  note f = new_Assignment_frame [OF na]
  from Cons.IH [OF rows, of "acc @ [a]" w'] obtain w2 where
    l: "load_assignment_rows py rows (acc @ [a]) w' =
          (Inr ((acc @ [a]) @ [next_assignment w' ..< next_assignment w' + length ys]), w2)"
    and m: "map (assignment_obj w2) [next_assignment w' ..< next_assignment w' + length ys] = ys"
    by blast
  from load_assignment_rows_frame [OF l] f
  have "assignment_obj w2 (next_assignment w) = assignment_obj w' (next_assignment w)"
    by simp
  with f have h: "assignment_obj w2 (next_assignment w) = x"
    by simp
  have u: "[next_assignment w ..< next_assignment w + length xs] =
             next_assignment w # [next_assignment w' ..< next_assignment w' + length ys]"
    using f upt_add_Suc [of "next_assignment w" "length ys"] by (simp add: xs del: upt_Suc)
  have "load_assignment_rows py (row # rows) acc w =
          (Inr (acc @ [next_assignment w ..< next_assignment w + length xs]), w2)"
    using l f by (simp add: row na u)
  moreover have "map (assignment_obj w2) [next_assignment w ..< next_assignment w + length xs] = xs"
    unfolding u using m h by (simp add: xs)
  ultimately show ?case by blast
qed

lemma find_Some_member: "find P xs = Some x \<Longrightarrow> x \<in> set xs \<and> P x"
  by (induction xs) (auto split: if_splits)

lemma find_distinct_key:
  "distinct (map f xs) \<Longrightarrow> x \<in> set xs \<Longrightarrow> (find (\<lambda>y. f y = t) xs = Some x) \<longleftrightarrow> f x = t"
  by (induction xs) (auto simp: image_iff dest: find_Some_member)

lemma filter_concat_owner:
  "distinct (map f cs) \<Longrightarrow> \<forall>c \<in> set cs. \<forall>x \<in> set (g c). h x = f c \<Longrightarrow> c \<in> set cs \<Longrightarrow>
   filter (\<lambda>x. h x = f c) (concat (map g cs)) = g c"
proof (induction cs)
  case Nil
  then show ?case by simp
next
  case (Cons d cs)
  show ?case
  proof (cases "c = d")
    case True
    have "filter (\<lambda>x. h x = f d) (g d) = g d" using Cons.prems by (simp add: filter_id_conv)
    moreover have "filter (\<lambda>x. h x = f d) (concat (map g cs)) = []"
      using Cons.prems by (auto simp: filter_empty_conv image_iff)
    ultimately show ?thesis using True by simp
  next
    case False
    then have c: "c \<in> set cs" using Cons.prems by simp
    have "filter (\<lambda>x. h x = f c) (g d) = []"
      using Cons.prems c by (auto simp: filter_empty_conv image_iff)
    then show ?thesis using Cons c by simp
  qed
qed

lemma DictReader_rows:
  "\<forall>r \<in> set rows. r \<noteq> [] \<Longrightarrow> DictReader (h # rows) = map (mk_dict h) rows"
  by (simp add: DictReader_def filter_id_conv)

subsection \<open>Stripped names\<close>

lemma strip_trimmed: "\<not> has_outer_whitespace (strip n)"
proof (cases "strip n = []")
  case True
  then show ?thesis by (simp add: has_outer_whitespace_def)
next
  case False
  define t where "t = dropWhile is_space n"
  define u where "u = dropWhile is_space (rev t)"
  have s: "strip n = rev u" by (simp add: strip_def t_def u_def)
  with False have u: "u \<noteq> []" by simp
  then have t: "t \<noteq> []" by (auto simp: u_def)
  have "\<not> is_space (hd u)" using u unfolding u_def by (rule hd_dropWhile)
  then have l: "\<not> is_space (last (strip n))" using u by (simp add: s last_rev)
  have "rev t = takeWhile is_space (rev t) @ u" by (simp add: u_def)
  then have "last (rev t) = last u" using u by (metis last_appendR)
  then have "last u = hd t" using t by (simp add: last_rev)
  moreover have "\<not> is_space (hd t)" using t unfolding t_def by (rule hd_dropWhile)
  ultimately have "\<not> is_space (hd (strip n))" using u by (simp add: s hd_rev)
  with l show ?thesis by (simp add: has_outer_whitespace_def)
qed

subsection \<open>What a save writes\<close>

lemma persisted_names_header [simp]: "persisted_names (Some [h]) = []" "persisted_names None = []"
  by (simp_all add: persisted_names_def DictReader_def)

lemma dict_get_name_course_row:
  "dict_get (mk_dict courses_header (course_row w c)) ''name'' =
     Inr (Some (csv_text (name (course_obj w c))))"
  by (simp add: mk_dict_def courses_header_def course_row_def dict_get_def)

lemma dict_get_name_assignment_row:
  "dict_get (mk_dict assignments_header (assignment_row py w a)) ''name'' =
     Inr (Some (csv_text (a_name (assignment_obj w a))))"
  by (simp add: mk_dict_def assignments_header_def assignment_row_def dict_get_def)

lemma persisted_names_courses_saved:
  "persisted_names (courses_file (save_all_data py w)) =
     map (\<lambda>c. csv_text (name (course_obj w c))) (courses w)"
proof -
  have "DictReader (courses_header # map (course_row w) (courses w)) =
          map (mk_dict courses_header) (map (course_row w) (courses w))"
    by (rule DictReader_rows) (auto simp: course_row_def)
  then show ?thesis
    by (simp add: persisted_names_def courses_file_save_all_data dict_get_name_course_row
        comp_def concat_map_singleton)
qed

lemma concat_concat_singletons:
  "concat (concat (map (\<lambda>x. map (\<lambda>a. [f a]) (g x)) cs)) = concat (map (\<lambda>c. map f (g c)) cs)"
  by (induction cs) (simp_all add: concat_map_singleton)

lemma persisted_names_assignments_saved:
  "persisted_names (assignments_file (save_all_data py w)) =
     concat (map (\<lambda>c. map (\<lambda>a. csv_text (a_name (assignment_obj w a)))
                           (assignments (course_obj w c))) (courses w))"
proof -
  have "DictReader (assignments_header #
          concat (map (\<lambda>c. map (assignment_row py w) (assignments (course_obj w c))) (courses w))) =
        map (mk_dict assignments_header)
          (concat (map (\<lambda>c. map (assignment_row py w) (assignments (course_obj w c))) (courses w)))"
    by (rule DictReader_rows) (auto simp: assignment_row_def)
  then show ?thesis
    by (simp add: persisted_names_def assignments_file_save_all_data dict_get_name_assignment_row
        comp_def map_concat concat_concat_singletons)
qed

lemma csv_text_trimmed:
  "(\<forall>n. v = Some n \<longrightarrow> \<not> has_outer_whitespace n) \<Longrightarrow> \<not> has_outer_whitespace (csv_text v)"
  by (cases v) (simp_all add: csv_text_def has_outer_whitespace_def)

lemma stored_names_trimmed_save:
  "stored_names_trimmed (save_all_data py w) = stored_names_trimmed w"
  by (simp add: stored_names_trimmed_def)

lemma save_all_data_trimmed:
  "stored_names_trimmed w \<Longrightarrow>
   stored_names_trimmed (save_all_data py w) \<and> persisted_names_trimmed (save_all_data py w)"
proof -
  assume s: "stored_names_trimmed w"
  have c: "\<not> has_outer_whitespace (csv_text (name (course_obj w c)))"
    if "c \<in> set (courses w)" for c
    using s that by (intro csv_text_trimmed) (simp add: stored_names_trimmed_def)
  have a: "\<not> has_outer_whitespace (csv_text (a_name (assignment_obj w a)))"
    if "c \<in> set (courses w)" "a \<in> set (assignments (course_obj w c))" for c a
    using s that by (intro csv_text_trimmed) (simp add: stored_names_trimmed_def)
  have "persisted_names_trimmed (save_all_data py w)"
    unfolding persisted_names_trimmed_def persisted_names_courses_saved
      persisted_names_assignments_saved
    using c a by auto
  with s show ?thesis by (simp add: stored_names_trimmed_save)
qed

subsection \<open>The four operations keep names trimmed\<close>

lemma add_course_trimmed:
  assumes "stored_names_trimmed w" "persisted_names_trimmed w"
  shows "stored_names_trimmed (snd (add_course py w n)) \<and>
         persisted_names_trimmed (snd (add_course py w n))"
proof (cases "strip n = []")
  case True
  with assms show ?thesis by (simp add: add_course_def)
next
  case False
  define i where "i = max_default (map (\<lambda>c. course_id (course_obj w c)) (courses w)) 0 + 1"
  define w2 where
    "w2 = (snd (new_Course i (Some (strip n)) w))\<lparr>courses := courses w @ [next_course w]\<rparr>"
  have r: "snd (add_course py w n) = save_all_data py w2"
    using False by (simp add: add_course_def Let_def new_Course_def w2_def i_def)
  have "stored_names_trimmed w2"
    using assms(1) strip_trimmed [of n]
    by (auto simp: stored_names_trimmed_def w2_def new_Course_def less_Suc_eq)
  then show ?thesis unfolding r by (rule save_all_data_trimmed)
qed

lemma delete_course_trimmed:
  assumes "stored_names_trimmed w" "persisted_names_trimmed w"
  shows "stored_names_trimmed (delete_course py w c) \<and>
         persisted_names_trimmed (delete_course py w c)"
proof (cases "c \<in> set (courses w)")
  case False
  with assms show ?thesis by (simp add: delete_course_def)
next
  case True
  have "stored_names_trimmed (w\<lparr>courses := remove1 c (courses w)\<rparr>)"
    using assms(1) by (auto simp: stored_names_trimmed_def dest: notin_set_remove1)
  from save_all_data_trimmed [OF this] True show ?thesis by (simp add: delete_course_def)
qed

lemma add_assignment_trimmed:
  assumes "stored_names_trimmed w" "persisted_names_trimmed w"
  shows "stored_names_trimmed (snd (add_assignment py w c n s m)) \<and>
         persisted_names_trimmed (snd (add_assignment py w c n s m))"
proof (cases "strip n = [] \<or> m \<le> 0 \<or> s < 0 \<or> s > m")
  case True
  with assms show ?thesis by (auto simp: add_assignment_def)
next
  case False
  define i where "i = max_default (map (\<lambda>a. assignment_id (assignment_obj w a))
      (concat (map (\<lambda>c. assignments (course_obj w c)) (courses w)))) 0 + 1"
  define w2 where "w2 = Course_add_assignment c (next_assignment w)
      (snd (new_Assignment i (course_id (course_obj w c)) (Some (strip n)) s m w))"
  have r: "snd (add_assignment py w c n s m) = save_all_data py w2"
    using False by (simp add: add_assignment_def Let_def new_Assignment_def w2_def i_def)
  have "stored_names_trimmed w2"
    using assms(1) strip_trimmed [of n]
    by (auto simp: stored_names_trimmed_def w2_def new_Assignment_def Course_add_assignment_def
        less_Suc_eq)
  then show ?thesis unfolding r by (rule save_all_data_trimmed)
qed

lemma delete_assignment_trimmed:
  assumes "stored_names_trimmed w" "persisted_names_trimmed w"
  shows "stored_names_trimmed (delete_assignment py w c a) \<and>
         persisted_names_trimmed (delete_assignment py w c a)"
proof -
  have "stored_names_trimmed (remove_assignment c a w)"
    using assms(1)
    by (auto simp: stored_names_trimmed_def remove_assignment_def dest: notin_set_remove1)
  then show ?thesis unfolding delete_assignment_def by (rule save_all_data_trimmed)
qed

subsection \<open>Loading keeps names trimmed\<close>

lemma course_of_row_name: "course_of_row d = Inr (cid, n) \<Longrightarrow> dict_get d ''name'' = Inr n"
  by (auto simp: course_of_row_def split: sum.splits)

lemma assignment_of_row_name: "assignment_of_row py d = Inr x \<Longrightarrow> dict_get d ''name'' = Inr (a_name x)"
  by (auto simp: assignment_of_row_def split: sum.splits)

lemma persisted_names_member:
  "d \<in> set (DictReader rows) \<Longrightarrow> dict_get d ''name'' = Inr (Some n) \<Longrightarrow>
   n \<in> set (persisted_names (Some rows))"
  by (force simp: persisted_names_def)

lemma load_course_rows_inv:
  "load_course_rows rows acc w = (res, w1) \<Longrightarrow>
     next_course w \<le> next_course w1 \<and>
     (\<forall>r. r < next_course w \<longrightarrow> course_obj w1 r = course_obj w r) \<and>
     assignment_obj w1 = assignment_obj w \<and> next_assignment w1 = next_assignment w \<and>
     courses w1 = courses w \<and> courses_file w1 = courses_file w \<and>
     assignments_file w1 = assignments_file w \<and>
     (\<forall>r. next_course w \<le> r \<and> r < next_course w1 \<longrightarrow>
        assignments (course_obj w1 r) = [] \<and>
        (\<forall>n. name (course_obj w1 r) = Some n \<longrightarrow>
           (\<exists>d \<in> set rows. dict_get d ''name'' = Inr (Some n)))) \<and>
     (\<forall>cs. res = Inr cs \<longrightarrow> set cs \<subseteq> set acc \<union> {next_course w ..< next_course w1})"
proof (induction rows arbitrary: acc w)
  case Nil
  then show ?case by auto
next
  case (Cons row rows)
  show ?case
  proof (cases "course_of_row row")
    case (Inl e)
    with Cons.prems show ?thesis by auto
  next
    case (Inr v)
    obtain cid n where v: "v = (cid, n)" by (cases v)
    obtain c w' where nc: "new_Course cid n w = (c, w')" by (cases "new_Course cid n w")
    note f = new_Course_frame [OF nc]
    from Cons.prems Inr v nc have rec: "load_course_rows rows (acc @ [c]) w' = (res, w1)"
      by simp
    note ih = Cons.IH [OF rec]
    have nm: "dict_get row ''name'' = Inr n" using Inr v by (simp add: course_of_row_name)
    have new: "assignments (course_obj w1 r) = [] \<and>
        (\<forall>x. name (course_obj w1 r) = Some x \<longrightarrow>
           (\<exists>d \<in> set (row # rows). dict_get d ''name'' = Inr (Some x)))"
      if r: "next_course w \<le> r \<and> r < next_course w1" for r
    proof (cases "r = next_course w")
      case True
      then have "course_obj w1 r = course_obj w' r" using ih f by simp
      then have "course_obj w1 r = \<lparr>course_id = cid, name = n, assignments = []\<rparr>"
        using f True by simp
      then show ?thesis using nm by auto
    next
      case False
      then have "next_course w' \<le> r \<and> r < next_course w1" using r f by simp
      with ih show ?thesis by auto
    qed
    have old: "course_obj w1 r = course_obj w r" if "r < next_course w" for r
      using that ih f by simp
    have sub: "set cs \<subseteq> set acc \<union> {next_course w ..< next_course w1}" if "res = Inr cs" for cs
    proof -
      from ih that have "set cs \<subseteq> set (acc @ [c]) \<union> {next_course w' ..< next_course w1}" by blast
      moreover have "next_course w < next_course w1" using ih f by simp
      ultimately show ?thesis using f by auto
    qed
    from new old sub ih f show ?thesis by simp
  qed
qed

lemma load_assignment_rows_inv:
  "load_assignment_rows py rows acc w = (res, w2) \<Longrightarrow>
     (\<forall>r. next_assignment w \<le> r \<and> r < next_assignment w2 \<longrightarrow>
        (\<forall>n. a_name (assignment_obj w2 r) = Some n \<longrightarrow>
           (\<exists>d \<in> set rows. dict_get d ''name'' = Inr (Some n)))) \<and>
     (\<forall>as. res = Inr as \<longrightarrow> set as \<subseteq> set acc \<union> {next_assignment w ..< next_assignment w2})"
proof (induction rows arbitrary: acc w)
  case Nil
  then show ?case by auto
next
  case (Cons row rows)
  show ?case
  proof (cases "assignment_of_row py row")
    case (Inl e)
    with Cons.prems show ?thesis by auto
  next
    case (Inr x)
    obtain a w' where na:
      "new_Assignment (assignment_id x) (a_course_id x) (a_name x) (score x) (max_points x) w = (a, w')"
      by (cases "new_Assignment (assignment_id x) (a_course_id x) (a_name x) (score x) (max_points x) w")
    note f = new_Assignment_frame [OF na]
    from Cons.prems Inr na have rec: "load_assignment_rows py rows (acc @ [a]) w' = (res, w2)"
      by simp
    note ih = Cons.IH [OF rec]
    note fr = load_assignment_rows_frame [OF rec]
    have nm: "dict_get row ''name'' = Inr (a_name x)" using Inr by (rule assignment_of_row_name)
    have new: "\<forall>n. a_name (assignment_obj w2 r) = Some n \<longrightarrow>
           (\<exists>d \<in> set (row # rows). dict_get d ''name'' = Inr (Some n))"
      if r: "next_assignment w \<le> r \<and> r < next_assignment w2" for r
    proof (cases "r = next_assignment w")
      case True
      then have "assignment_obj w2 r = assignment_obj w' r" using fr f by simp
      then have "a_name (assignment_obj w2 r) = a_name x" using f True by simp
      then show ?thesis using nm by auto
    next
      case False
      then have "next_assignment w' \<le> r \<and> r < next_assignment w2" using r f by simp
      with ih show ?thesis by auto
    qed
    have sub: "set as \<subseteq> set acc \<union> {next_assignment w ..< next_assignment w2}" if "res = Inr as" for as
    proof -
      from ih that have "set as \<subseteq> set (acc @ [a]) \<union> {next_assignment w' ..< next_assignment w2}"
        by blast
      moreover have "next_assignment w < next_assignment w2" using fr f by simp
      ultimately show ?thesis using f by auto
    qed
    from new sub show ?thesis by simp
  qed
qed

lemma load_courses_inv:
  assumes "load_courses w = (res, w1)"
  shows "next_course w \<le> next_course w1"
    and "assignment_obj w1 = assignment_obj w" and "next_assignment w1 = next_assignment w"
    and "courses w1 = courses w" and "courses_file w1 = courses_file w"
    and "assignments_file w1 = assignments_file w"
    and "\<And>r. next_course w \<le> r \<Longrightarrow> r < next_course w1 \<Longrightarrow>
           assignments (course_obj w1 r) = [] \<and>
           (\<forall>n. name (course_obj w1 r) = Some n \<longrightarrow> n \<in> set (persisted_names (courses_file w)))"
    and "\<And>cs. res = Inr cs \<Longrightarrow> set cs \<subseteq> {next_course w ..< next_course w1}"
proof -
  have "next_course w \<le> next_course w1 \<and>
     assignment_obj w1 = assignment_obj w \<and> next_assignment w1 = next_assignment w \<and>
     courses w1 = courses w \<and> courses_file w1 = courses_file w \<and>
     assignments_file w1 = assignments_file w \<and>
     (\<forall>r. next_course w \<le> r \<and> r < next_course w1 \<longrightarrow>
        assignments (course_obj w1 r) = [] \<and>
        (\<forall>n. name (course_obj w1 r) = Some n \<longrightarrow> n \<in> set (persisted_names (courses_file w)))) \<and>
     (\<forall>cs. res = Inr cs \<longrightarrow> set cs \<subseteq> {next_course w ..< next_course w1})"
  proof (cases "courses_file w")
    case None
    with assms show ?thesis by (auto simp: load_courses_def)
  next
    case (Some f)
    with assms have l: "load_course_rows (DictReader f) [] w = (res, w1)"
      by (simp add: load_courses_def)
    from load_course_rows_inv [OF l] show ?thesis
      unfolding Some using persisted_names_member [of _ f] by (simp; blast)
  qed
  then show "next_course w \<le> next_course w1"
    and "assignment_obj w1 = assignment_obj w" and "next_assignment w1 = next_assignment w"
    and "courses w1 = courses w" and "courses_file w1 = courses_file w"
    and "assignments_file w1 = assignments_file w"
    and "\<And>r. next_course w \<le> r \<Longrightarrow> r < next_course w1 \<Longrightarrow>
           assignments (course_obj w1 r) = [] \<and>
           (\<forall>n. name (course_obj w1 r) = Some n \<longrightarrow> n \<in> set (persisted_names (courses_file w)))"
    and "\<And>cs. res = Inr cs \<Longrightarrow> set cs \<subseteq> {next_course w ..< next_course w1}"
    by blast+
qed

lemma load_assignments_inv:
  assumes "load_assignments py w = (res, w2)"
  shows "\<And>r n. next_assignment w \<le> r \<Longrightarrow> r < next_assignment w2 \<Longrightarrow>
           a_name (assignment_obj w2 r) = Some n \<Longrightarrow>
           n \<in> set (persisted_names (assignments_file w))"
    and "\<And>as. res = Inr as \<Longrightarrow> set as \<subseteq> {next_assignment w ..< next_assignment w2}"
proof -
  have "(\<forall>r n. next_assignment w \<le> r \<and> r < next_assignment w2 \<and>
           a_name (assignment_obj w2 r) = Some n \<longrightarrow>
           n \<in> set (persisted_names (assignments_file w))) \<and>
        (\<forall>as. res = Inr as \<longrightarrow> set as \<subseteq> {next_assignment w ..< next_assignment w2})"
  proof (cases "assignments_file w")
    case None
    with assms show ?thesis by (auto simp: load_assignments_def)
  next
    case (Some f)
    with assms have l: "load_assignment_rows py (DictReader f) [] w = (res, w2)"
      by (simp add: load_assignments_def)
    from load_assignment_rows_inv [OF l] show ?thesis
      unfolding Some using persisted_names_member [of _ f] by (simp; blast)
  qed
  then show "\<And>r n. next_assignment w \<le> r \<Longrightarrow> r < next_assignment w2 \<Longrightarrow>
           a_name (assignment_obj w2 r) = Some n \<Longrightarrow>
           n \<in> set (persisted_names (assignments_file w))"
    and "\<And>as. res = Inr as \<Longrightarrow> set as \<subseteq> {next_assignment w ..< next_assignment w2}"
    by blast+
qed

lemma load_all_data_trimmed:
  assumes p: "persisted_names_trimmed w" and e: "courses w = []"
  shows "stored_names_trimmed (snd (load_all_data py w)) \<and>
         persisted_names_trimmed (snd (load_all_data py w))"
proof -
  obtain res1 w1 where lc: "load_courses w = (res1, w1)" by (cases "load_courses w")
  note c = load_courses_inv [OF lc]
  have p1: "persisted_names_trimmed w1"
    using p c by (simp add: persisted_names_trimmed_def)
  have cn: "\<not> has_outer_whitespace n"
    if "next_course w \<le> r" "r < next_course w1" "name (course_obj w1 r) = Some n" for r n
    using c(7) [OF that(1,2)] that(3) p by (auto simp: persisted_names_trimmed_def)
  show ?thesis
  proof (cases res1)
    case (Inl err)
    then have "snd (load_all_data py w) = w1" by (simp add: load_all_data_def lc)
    moreover have "stored_names_trimmed w1" using c e by (simp add: stored_names_trimmed_def)
    ultimately show ?thesis using p1 by simp
  next
    case (Inr cs)
    obtain res2 w2 where la: "load_assignments py (w1\<lparr>courses := cs\<rparr>) = (res2, w2)"
      by (cases "load_assignments py (w1\<lparr>courses := cs\<rparr>)")
    note a = load_assignments_inv [OF la]
    note f = load_assignment_rows_frame load_assignments_frame [OF la]
    have f2: "course_obj w2 = course_obj w1" "next_course w2 = next_course w1" "courses w2 = cs"
      "courses_file w2 = courses_file w1" "assignments_file w2 = assignments_file w1"
      using load_assignments_frame [OF la] by simp_all
    have p2: "persisted_names_trimmed w2"
      using p1 f2 by (simp add: persisted_names_trimmed_def)
    have rng: "next_course w \<le> r \<and> r < next_course w1" if "r \<in> set cs" for r
      using c(8) [OF Inr] that by auto
    have an: "\<not> has_outer_whitespace n"
      if "next_assignment w1 \<le> r" "r < next_assignment w2" "a_name (assignment_obj w2 r) = Some n"
      for r n
    proof -
      from a(1) [of r n] that have "n \<in> set (persisted_names (assignments_file w1))" by simp
      with p1 show ?thesis by (simp add: persisted_names_trimmed_def)
    qed
    show ?thesis
    proof (cases res2)
      case (Inl err)
      then have r: "snd (load_all_data py w) = w2" by (simp add: load_all_data_def lc Inr la)
      have "stored_names_trimmed w2"
        unfolding stored_names_trimmed_def
      proof (intro ballI conjI allI impI)
        fix r assume r: "r \<in> set (courses w2)"
        then have i: "next_course w \<le> r \<and> r < next_course w1" using rng f2 by simp
        then show "r < next_course w2" using f2 by simp
        have em: "assignments (course_obj w2 r) = []" using c(7) i f2 by simp
        { fix n assume "name (course_obj w2 r) = Some n"
          then have "name (course_obj w1 r) = Some n" by (simp add: f2)
          with cn i show "\<not> has_outer_whitespace n" by blast }
        { fix x assume "x \<in> set (assignments (course_obj w2 r))"
          with em show "x < next_assignment w2" by simp }
        { fix x n assume "x \<in> set (assignments (course_obj w2 r))"
          with em show "\<not> has_outer_whitespace n" by simp }
      qed
      with p2 r show ?thesis by simp
    next
      case (Inr as)
      define w' where "w' = link_assignments as w2"
      have r: "snd (load_all_data py w) = w'"
        by (simp add: load_all_data_def lc \<open>res1 = Inr cs\<close> la Inr w'_def)
      have arng: "next_assignment w1 \<le> x \<and> x < next_assignment w2" if "x \<in> set as" for x
        using a(2) [OF Inr] that by auto
      have "stored_names_trimmed w'"
        unfolding stored_names_trimmed_def
      proof (intro ballI conjI allI impI)
        fix r assume r: "r \<in> set (courses w')"
        then have rc: "r \<in> set cs" by (simp add: w'_def link_assignments_frame f2)
        then have i: "next_course w \<le> r \<and> r < next_course w1" by (rule rng)
        then show "r < next_course w'" by (simp add: w'_def link_assignments_frame f2)
        have em: "assignments (course_obj w2 r) = []" using c(7) i f2 by simp
        have sub: "set (assignments (course_obj w' r)) \<subseteq> set as"
          by (auto simp: w'_def link_assignments_assignments em)
        { fix n assume "name (course_obj w' r) = Some n"
          then have "name (course_obj w1 r) = Some n"
            by (simp add: w'_def link_assignments_frame f2)
          with cn i show "\<not> has_outer_whitespace n" by blast }
        { fix x assume "x \<in> set (assignments (course_obj w' r))"
          with sub arng show "x < next_assignment w'"
            by (auto simp: w'_def link_assignments_frame) }
        { fix x n assume "x \<in> set (assignments (course_obj w' r))"
            and "a_name (assignment_obj w' x) = Some n"
          with sub arng an show "\<not> has_outer_whitespace n"
            by (auto simp: w'_def link_assignments_frame) }
      qed
      moreover have "persisted_names_trimmed w'"
        using p2 by (simp add: persisted_names_trimmed_def w'_def link_assignments_frame)
      ultimately show ?thesis using r by simp
    qed
  qed
qed

lemma GradeCalculator_init_trimmed:
  assumes "persisted_names_trimmed w"
  shows "stored_names_trimmed (snd (GradeCalculator_init py w)) \<and>
         persisted_names_trimmed (snd (GradeCalculator_init py w))"
proof -
  have "persisted_names_trimmed (create_files_if_needed (w\<lparr>courses := []\<rparr>))"
    using assms by (auto simp: persisted_names_trimmed_def create_files_if_needed_def Let_def)
  moreover have "courses (create_files_if_needed (w\<lparr>courses := []\<rparr>)) = []"
    by (simp add: create_files_if_needed_def Let_def)
  ultimately show ?thesis unfolding GradeCalculator_init_def by (rule load_all_data_trimmed)
qed

lemma reachable_trimmed:
  "reachable py w0 w \<Longrightarrow> persisted_names_trimmed w0 \<Longrightarrow>
   stored_names_trimmed w \<and> persisted_names_trimmed w"
proof (induction rule: reachable.induct)
  case start
  then show ?case by (intro GradeCalculator_init_trimmed)
next
  case (restart w)
  then show ?case by (intro GradeCalculator_init_trimmed) simp
next
  case (add_course w n)
  then show ?case by (intro add_course_trimmed) simp_all
next
  case (delete_course w c)
  then show ?case by (intro delete_course_trimmed) simp_all
next
  case (add_assignment w c n s m)
  then show ?case by (intro add_assignment_trimmed) simp_all
next
  case (delete_assignment w c a)
  then show ?case by (intro delete_assignment_trimmed) simp_all
qed

lemma edited_saved_file:
  "courses_file edited_saved =
     Some [courses_header, [''1'', '' padded ''], [''2'', ''Algorithms'']]"
  by (simp add: edited_saved_def edited_loaded_def edited_files_def run_defs parse_defs
      empty_world_def str_int_def str_nat.simps digit_char_def)

text \<open>
  Claim C9, as stated, fails: a persisted name can have whitespace at its ends. A course
  store that holds the name \<^verbatim>\<open>' padded '\<close> is loaded as it is (\<^verbatim>\<open>load_courses\<close> does
  not strip), and the save of the next \<^verbatim>\<open>add_course\<close> writes the name back unchanged.
\<close>

theorem loaded_name_keeps_whitespace:
  "courses_file edited_files = Some [courses_header, [''1'', '' padded '']] \<and>
   edited_loaded = snd (GradeCalculator_init demo_python edited_files) \<and>
   edited_saved = snd (add_course demo_python edited_loaded ''Algorithms'') \<and>
   reachable demo_python edited_files edited_saved \<and>
   courses_file edited_saved =
     Some [courses_header, [''1'', '' padded ''], [''2'', ''Algorithms'']] \<and>
   '' padded '' \<in> set (persisted_names (courses_file edited_saved)) \<and>
   has_outer_whitespace '' padded ''"
proof -
  have "reachable demo_python edited_files edited_loaded"
    unfolding edited_loaded_def by (rule reachable.start)
  then have r: "reachable demo_python edited_files edited_saved"
    unfolding edited_saved_def by (rule reachable.add_course)
  have p: "'' padded '' \<in> set (persisted_names (courses_file edited_saved))"
    by (simp add: edited_saved_file persisted_names_def DictReader_def mk_dict_def
        dict_get_def courses_header_def)
  have h: "has_outer_whitespace '' padded ''"
    by (simp add: has_outer_whitespace_def is_space_def)
  from r p h show ?thesis
    by (simp add: edited_saved_file) (simp add: edited_files_def edited_loaded_def edited_saved_def)
qed

text \<open>
  Claim C9, amended. The course that \<^verbatim>\<open>add_course\<close> returns is in the collection and
  the assignment that \<^verbatim>\<open>add_assignment\<close> returns is in the course's list, and the
  name of either is the stripped form of the name given, which has no whitespace at
  either end. Consequently, when no name in the stores the program starts from has
  leading or trailing whitespace (as when the stores are absent), no name in either store
  has leading or trailing whitespace in any world a run reaches.
\<close>

theorem names_are_stripped:
  "(fst (add_course py w n) = Inr c \<longrightarrow>
      name (course_obj (snd (add_course py w n)) c) = Some (strip n) \<and>
      c \<in> set (courses (snd (add_course py w n)))) \<and>
   (fst (add_assignment py w k n s m) = Inr a \<longrightarrow>
      a_name (assignment_obj (snd (add_assignment py w k n s m)) a) = Some (strip n) \<and>
      a \<in> set (assignments (course_obj (snd (add_assignment py w k n s m)) k))) \<and>
   \<not> has_outer_whitespace (strip n) \<and>
   ((\<forall>x \<in> set (persisted_names (courses_file w0) @ persisted_names (assignments_file w0)).
        \<not> has_outer_whitespace x) \<and>
    reachable py w0 u \<longrightarrow>
      (\<forall>x \<in> set (persisted_names (courses_file u) @ persisted_names (assignments_file u)).
         \<not> has_outer_whitespace x))"
proof (intro conjI impI)
  assume "fst (add_course py w n) = Inr c"
  then show "name (course_obj (snd (add_course py w n)) c) = Some (strip n)"
    and "c \<in> set (courses (snd (add_course py w n)))"
    by (auto simp: add_course_def Let_def new_Course_def split: if_splits)
next
  assume "fst (add_assignment py w k n s m) = Inr a"
  then show "a_name (assignment_obj (snd (add_assignment py w k n s m)) a) = Some (strip n)"
    and "a \<in> set (assignments (course_obj (snd (add_assignment py w k n s m)) k))"
    by (auto simp: add_assignment_def Let_def new_Assignment_def Course_add_assignment_def
        split: if_splits)
next
  show "\<not> has_outer_whitespace (strip n)" by (rule strip_trimmed)
next
  assume a: "(\<forall>x \<in> set (persisted_names (courses_file w0) @ persisted_names (assignments_file w0)).
        \<not> has_outer_whitespace x) \<and> reachable py w0 u"
  then have "persisted_names_trimmed w0" by (simp add: persisted_names_trimmed_def)
  moreover from a have "reachable py w0 u" by blast
  ultimately have "persisted_names_trimmed u" using reachable_trimmed by blast
  then show "\<forall>x \<in> set (persisted_names (courses_file u) @ persisted_names (assignments_file u)).
         \<not> has_outer_whitespace x"
    by (simp add: persisted_names_trimmed_def)
qed

lemma padded_world_fields:
  "fst (add_course demo_python started_world ''  Algorithms  '') = Inr 0"
  "fst (add_assignment demo_python padded_course_world 0 '' HW1 '' 8 10) = Inr 0"
  "courses_file padded_world = Some [courses_header, [''1'', ''Algorithms'']]"
  "assignments_file padded_world = Some [assignments_header, [''1'', ''1'', ''HW1'', ''8'', ''10'']]"
  by (simp_all add: padded_world_def padded_course_world_def started_world_eq run_defs
      empty_world_def str_int_def str_nat.simps digit_char_def demo_python_def)

lemma padded_world_reachable: "reachable demo_python empty_world padded_world"
proof -
  have "reachable demo_python empty_world started_world"
    unfolding started_world_def by (rule reachable.start)
  then have "reachable demo_python empty_world padded_course_world"
    unfolding padded_course_world_def by (rule reachable.add_course)
  then show ?thesis
    unfolding padded_world_def by (rule reachable.add_assignment)
qed

theorem names_are_stripped_witness:
  "fst (add_course demo_python started_world ''  Algorithms  '') = Inr 0 \<and>
   name (course_obj padded_course_world 0) = Some ''Algorithms'' \<and>
   fst (add_assignment demo_python padded_course_world 0 '' HW1 '' 8 10) = Inr 0 \<and>
   a_name (assignment_obj padded_world 0) = Some ''HW1'' \<and>
   persisted_names (courses_file empty_world) @ persisted_names (assignments_file empty_world) = [] \<and>
   reachable demo_python empty_world padded_world \<and>
   persisted_names (courses_file padded_world) = [''Algorithms''] \<and>
   persisted_names (assignments_file padded_world) = [''HW1''] \<and>
   \<not> has_outer_whitespace ''Algorithms'' \<and> \<not> has_outer_whitespace ''HW1''"
proof -
  have s: "strip ''  Algorithms  '' = ''Algorithms''" "strip '' HW1 '' = ''HW1''"
    by (simp_all add: strip_def is_space_def)
  have p: "persisted_names (courses_file padded_world) = [''Algorithms'']"
    "persisted_names (assignments_file padded_world) = [''HW1'']"
    by (simp_all add: padded_world_fields persisted_names_def DictReader_def mk_dict_def
        dict_get_def courses_header_def assignments_header_def)
  have e: "persisted_names (courses_file empty_world) @
             persisted_names (assignments_file empty_world) = []"
    by (simp add: empty_world_def)
  from names_are_stripped [where py = demo_python and w = started_world
      and n = "''  Algorithms  ''" and c = 0 and k = 0 and s = 8 and m = 10 and a = 0
      and u = padded_world and ?w0.0 = empty_world]
    names_are_stripped [where py = demo_python and w = padded_course_world
      and n = "'' HW1 ''" and c = 0 and k = 0 and s = 8 and m = 10 and a = 0
      and u = padded_world and ?w0.0 = empty_world]
    padded_world_reachable e
  show ?thesis
    by (simp add: padded_world_fields(1,2) s p padded_course_world_def [symmetric]
        padded_world_def [symmetric])
qed

subsection \<open>float(str(x)) = x\<close>

lemma more_digit_list_digit:
  "digit_val c = Some d \<Longrightarrow>
   more_digit_list (c # cs) = (case more_digit_list cs of (ds, r) \<Rightarrow> (d # ds, r))"
  by (cases cs) simp_all

lemma more_digit_list_stop:
  "r = [] \<or> (digit_val (hd r) = None \<and> hd r \<noteq> CHR ''_'') \<Longrightarrow> more_digit_list r = ([], r)"
proof (cases r)
  case Nil
  then show ?thesis by simp
next
  case (Cons c cs)
  assume "r = [] \<or> (digit_val (hd r) = None \<and> hd r \<noteq> CHR ''_'')"
  with Cons show ?thesis by (cases cs) simp_all
qed

lemma more_digit_list_digits:
  "\<forall>d \<in> set ns. d < 10 \<Longrightarrow>
   r = [] \<or> (digit_val (hd r) = None \<and> hd r \<noteq> CHR ''_'') \<Longrightarrow>
   more_digit_list (map digit_char ns @ r) = (ns, r)"
proof (induction ns)
  case Nil
  then show ?case by (simp add: more_digit_list_stop)
next
  case (Cons n ns)
  then have "digit_val (digit_char n) = Some n" by (simp add: digit_val_digit_char)
  from more_digit_list_digit [OF this] Cons show ?case by simp
qed

lemma read_digits_digits:
  "\<forall>d \<in> set ns. d < 10 \<Longrightarrow>
   r = [] \<or> (digit_val (hd r) = None \<and> hd r \<noteq> CHR ''_'') \<Longrightarrow>
   read_digits (map digit_char ns @ r) = (ns, r)"
proof (cases ns)
  case Nil
  assume "r = [] \<or> (digit_val (hd r) = None \<and> hd r \<noteq> CHR ''_'')"
  with Nil show ?thesis by (cases r) (simp_all add: read_digits_def)
next
  case (Cons n ms)
  assume a: "\<forall>d \<in> set ns. d < 10" and r: "r = [] \<or> (digit_val (hd r) = None \<and> hd r \<noteq> CHR ''_'')"
  from a Cons have "digit_val (digit_char n) = Some n" by (simp add: digit_val_digit_char)
  moreover from a Cons r have "more_digit_list (map digit_char ms @ r) = (ms, r)"
    by (intro more_digit_list_digits) simp_all
  ultimately show ?thesis by (simp add: Cons read_digits_def)
qed

lemma digits_value_snoc: "digits_value (ns @ [d]) = 10 * digits_value ns + d"
  by (simp add: digits_value_def)

lemma foldl_digits: "foldl (\<lambda>a d. 10 * a + d) a ns = a * 10 ^ length ns + digits_value ns"
proof (induction ns arbitrary: a)
  case Nil
  then show ?case by (simp add: digits_value_def)
next
  case (Cons n ns)
  have "foldl (\<lambda>a d. 10 * a + d) a (n # ns) = (10 * a + n) * 10 ^ length ns + digits_value ns"
    by (simp add: Cons.IH)
  moreover have "digits_value (n # ns) = n * 10 ^ length ns + digits_value ns"
    using Cons.IH [of n] by (simp add: digits_value_def)
  ultimately show ?case by (simp add: algebra_simps)
qed

lemma digits_value_Cons: "digits_value (n # ns) = n * 10 ^ length ns + digits_value ns"
  using foldl_digits [of n ns] by (simp add: digits_value_def)

text \<open>The digits that \<open>str_nat\<close> writes.\<close>

lemma str_nat_digit_list:
  "\<exists>ns. str_nat n = map digit_char ns \<and> ns \<noteq> [] \<and> (\<forall>d \<in> set ns. d < 10) \<and>
        digits_value ns = n"
proof (induction n rule: str_nat.induct)
  case (1 n)
  show ?case
  proof (cases "n < 10")
    case True
    then have "str_nat n = map digit_char [n]" by (simp add: str_nat.simps [of n])
    moreover have "digits_value [n] = n" by (simp add: digits_value_def)
    ultimately show ?thesis using True by (intro exI [of _ "[n]"]) simp
  next
    case False
    with 1 obtain ns where ns: "str_nat (n div 10) = map digit_char ns" "ns \<noteq> []"
      "\<forall>d \<in> set ns. d < 10" "digits_value ns = n div 10"
      by auto
    have "str_nat n = map digit_char (ns @ [n mod 10])"
      using False ns by (simp add: str_nat.simps [of n])
    moreover have "digits_value (ns @ [n mod 10]) = n"
      using ns by (simp add: digits_value_snoc)
    ultimately show ?thesis using ns by (intro exI [of _ "ns @ [n mod 10]"]) simp
  qed
qed

text \<open>The digits that \<open>frac_digits\<close> writes for a fraction of at most \<open>n\<close> digits.\<close>

lemma frac_digits_digit_list:
  "0 \<le> f \<Longrightarrow> f < 1 \<Longrightarrow> f * 10 ^ n \<in> \<int> \<Longrightarrow>
   \<exists>ns. frac_digits n f = map digit_char ns \<and> (\<forall>d \<in> set ns. d < 10) \<and>
        real (digits_value ns) / 10 ^ length ns = f"
proof (induction n arbitrary: f)
  case 0
  then have "f \<in> \<int>" by simp
  then obtain k :: int where k: "f = of_int k" by (auto elim: Ints_cases)
  with 0 have "k = 0" by simp
  with k have "f = 0" by simp
  then show ?case by (intro exI [of _ "[]"]) (simp add: digits_value_def)
next
  case (Suc n)
  show ?case
  proof (cases "f = 0")
    case True
    then show ?thesis by (intro exI [of _ "[]"]) (simp add: digits_value_def)
  next
    case False
    define d where "d = nat \<lfloor>10 * f\<rfloor>"
    define g where "g = 10 * f - of_int \<lfloor>10 * f\<rfloor>"
    have f0: "0 \<le> \<lfloor>10 * f\<rfloor>" using Suc.prems by simp
    have fl: "\<lfloor>10 * f\<rfloor> < 10" using Suc.prems by linarith
    have d: "d < 10" unfolding d_def using f0 fl by linarith
    have rd: "real d = of_int \<lfloor>10 * f\<rfloor>" unfolding d_def using f0 by simp
    have g0: "0 \<le> g" by (simp add: g_def)
    have g1: "g < 1" unfolding g_def by linarith
    have "g * 10 ^ n = f * 10 ^ Suc n - of_int (\<lfloor>10 * f\<rfloor> * 10 ^ n)"
      by (simp add: g_def algebra_simps)
    then have gi: "g * 10 ^ n \<in> \<int>" using Suc.prems(3) by (simp only: Ints_diff Ints_of_int)
    from Suc.IH [OF g0 g1 gi] obtain ns where ns: "frac_digits n g = map digit_char ns"
      "\<forall>d \<in> set ns. d < 10" "real (digits_value ns) / 10 ^ length ns = g"
      by blast
    have "frac_digits (Suc n) f = map digit_char (d # ns)"
      using False ns by (simp add: d_def g_def)
    moreover have "real (digits_value (d # ns)) / 10 ^ length (d # ns) = f"
    proof -
      have "real (digits_value (d # ns)) / 10 ^ length (d # ns) =
              (real d * 10 ^ length ns + real (digits_value ns)) / (10 * 10 ^ length ns)"
        by (simp add: digits_value_Cons)
      also have "\<dots> = real d / 10 + (real (digits_value ns) / 10 ^ length ns) / 10"
        by (simp add: add_divide_distrib)
      also have "\<dots> = (real d + g) / 10" by (simp add: ns add_divide_distrib)
      also have "\<dots> = f" by (simp add: rd g_def)
      finally show ?thesis .
    qed
    ultimately show ?thesis using d ns by (intro exI [of _ "d # ns"]) simp
  qed
qed

lemma digit_char_not_space: "d < 10 \<Longrightarrow> \<not> is_space (digit_char d)"
  using digit_val_digit_char digit_val_not_space by blast

lemma digit_char_not_sign: "d < 10 \<Longrightarrow> digit_char d \<noteq> CHR ''-'' \<and> digit_char d \<noteq> CHR ''+''"
  using digit_val_digit_char digit_val_not_sign by blast

lemma float_of_str_unsigned:
  assumes i: "ip \<noteq> []" "\<forall>d \<in> set ip. d < 10" and f: "fs \<noteq> []" "\<forall>d \<in> set fs. d < 10"
  shows "float_of_str (map digit_char ip @ CHR ''.'' # map digit_char fs) =
           Inr (real (digits_value ip) + real (digits_value fs) / 10 ^ length fs)"
proof -
  define t where "t = map digit_char ip @ CHR ''.'' # map digit_char fs"
  obtain n ns where hd: "ip = n # ns" using i by (cases ip) auto
  have n: "n < 10" using i hd by simp
  have l: "last t = digit_char (last fs)" using f by (simp add: t_def last_map)
  have "last fs < 10" using f by simp
  then have "\<not> is_space (last t)" unfolding l by (rule digit_char_not_space)
  moreover have "\<not> is_space (hd t)" using digit_char_not_space [OF n] by (simp add: t_def hd)
  ultimately have st: "strip t = t" by (intro strip_no_outer_space) (simp_all add: t_def)
  have sg: "read_sign t = (False, t)"
    using digit_char_not_sign [OF n] by (simp add: read_sign_def t_def hd)
  have dot: "digit_val CHR ''.'' = None" by (simp add: digit_val_unfold)
  have ip: "read_digits t = (ip, CHR ''.'' # map digit_char fs)"
    unfolding t_def using i dot by (intro read_digits_digits) simp_all
  have "read_digits (map digit_char fs @ []) = (fs, [])"
    using f by (intro read_digits_digits) simp_all
  then have fp: "read_fraction (CHR ''.'' # map digit_char fs) = (fs, [])"
    by (simp add: read_fraction_def)
  have ex: "read_exponent [] = Some (0, [])" by (simp add: read_exponent_def)
  show ?thesis
    unfolding t_def [symmetric]
    by (simp add: float_of_str_def st sg ip fp ex i Let_def)
qed

lemma float_of_str_negative:
  assumes i: "ip \<noteq> []" "\<forall>d \<in> set ip. d < 10" and f: "fs \<noteq> []" "\<forall>d \<in> set fs. d < 10"
  shows "float_of_str (CHR ''-'' # map digit_char ip @ CHR ''.'' # map digit_char fs) =
           Inr (- (real (digits_value ip) + real (digits_value fs) / 10 ^ length fs))"
proof -
  define t where "t = map digit_char ip @ CHR ''.'' # map digit_char fs"
  have l: "last (CHR ''-'' # t) = digit_char (last fs)" using f by (simp add: t_def last_map)
  have "last fs < 10" using f by simp
  then have "\<not> is_space (last (CHR ''-'' # t))" unfolding l by (rule digit_char_not_space)
  moreover have "\<not> is_space (hd (CHR ''-'' # t))" by (simp add: is_space_def)
  ultimately have st: "strip (CHR ''-'' # t) = CHR ''-'' # t" by (intro strip_no_outer_space) simp_all
  have sg: "read_sign (CHR ''-'' # t) = (True, t)" by (simp add: read_sign_def)
  have dot: "digit_val CHR ''.'' = None" by (simp add: digit_val_unfold)
  have ip: "read_digits t = (ip, CHR ''.'' # map digit_char fs)"
    unfolding t_def using i dot by (intro read_digits_digits) simp_all
  have "read_digits (map digit_char fs @ []) = (fs, [])"
    using f by (intro read_digits_digits) simp_all
  then have fp: "read_fraction (CHR ''.'' # map digit_char fs) = (fs, [])"
    by (simp add: read_fraction_def)
  have ex: "read_exponent [] = Some (0, [])" by (simp add: read_exponent_def)
  have "float_of_str (CHR ''-'' # t) =
           Inr (- (real (digits_value ip) + real (digits_value fs) / 10 ^ length fs))"
    by (simp add: float_of_str_def st sg ip fp ex i Let_def)
  then show ?thesis by (simp add: t_def)
qed

lemma str_unsigned_digit_lists:
  assumes x: "0 \<le> x" and p: "decimal_number x"
  shows "\<exists>ip fs. str_unsigned x = map digit_char ip @ CHR ''.'' # map digit_char fs \<and>
           ip \<noteq> [] \<and> (\<forall>d \<in> set ip. d < 10) \<and> fs \<noteq> [] \<and> (\<forall>d \<in> set fs. d < 10) \<and>
           real (digits_value ip) + real (digits_value fs) / 10 ^ length fs = x"
proof -
  define f where "f = x - of_int \<lfloor>x\<rfloor>"
  have f0: "0 \<le> f" and f1: "f < 1" unfolding f_def by linarith+
  have "f * 10 ^ max_fraction_digits =
          x * 10 ^ max_fraction_digits - of_int (\<lfloor>x\<rfloor> * 10 ^ max_fraction_digits)"
    by (simp add: f_def algebra_simps)
  then have fi: "f * 10 ^ max_fraction_digits \<in> \<int>"
    using p unfolding decimal_number_def by (simp only: Ints_diff Ints_of_int)
  obtain ip where i: "str_nat (nat \<lfloor>x\<rfloor>) = map digit_char ip" "ip \<noteq> []"
    "\<forall>d \<in> set ip. d < 10" "digits_value ip = nat \<lfloor>x\<rfloor>"
    using str_nat_digit_list [of "nat \<lfloor>x\<rfloor>"] by blast
  obtain gs where g: "frac_digits max_fraction_digits f = map digit_char gs"
    "\<forall>d \<in> set gs. d < 10" "real (digits_value gs) / 10 ^ length gs = f"
    using frac_digits_digit_list [OF f0 f1 fi] by blast
  define fs where "fs = (if gs = [] then [0] else gs)"
  have z: "''0'' = map digit_char [0]" by (simp add: digit_char_def)
  have c: "(case frac_digits max_fraction_digits f of [] \<Rightarrow> ''0'' | d # ds \<Rightarrow> d # ds) =
             map digit_char fs"
    unfolding g(1) fs_def by (cases gs) (simp_all add: digit_char_def)
  have fv: "real (digits_value fs) / 10 ^ length fs = f"
    using g(3) by (auto simp: fs_def digits_value_def)
  have fd: "fs \<noteq> []" "\<forall>d \<in> set fs. d < 10" using g(2) by (auto simp: fs_def)
  have "real (nat \<lfloor>x\<rfloor>) = of_int \<lfloor>x\<rfloor>" using x by simp
  then have v: "real (digits_value ip) + real (digits_value fs) / 10 ^ length fs = x"
    unfolding fv i(4) by (simp add: f_def)
  have "str_unsigned x = map digit_char ip @ CHR ''.'' # map digit_char fs"
    unfolding str_unsigned_def f_def [symmetric] c i(1) ..
  with i fd v show ?thesis by blast
qed

lemma float_of_str_str_float: "decimal_number x \<Longrightarrow> float_of_str (str_float x) = Inr x"
proof (cases "x < 0")
  case False
  assume p: "decimal_number x"
  from False have "0 \<le> x" by simp
  from str_unsigned_digit_lists [OF this p] obtain ip fs where
    "str_unsigned x = map digit_char ip @ CHR ''.'' # map digit_char fs"
    "ip \<noteq> []" "\<forall>d \<in> set ip. d < 10" "fs \<noteq> []" "\<forall>d \<in> set fs. d < 10"
    "real (digits_value ip) + real (digits_value fs) / 10 ^ length fs = x"
    by blast
  with float_of_str_unsigned [of ip fs] False show ?thesis by (simp add: str_float_def)
next
  case True
  assume p: "decimal_number x"
  then have p': "decimal_number (- x)" by (simp add: decimal_number_def)
  from True have "0 \<le> - x" by simp
  from str_unsigned_digit_lists [OF this p'] obtain ip fs where
    "str_unsigned (- x) = map digit_char ip @ CHR ''.'' # map digit_char fs"
    "ip \<noteq> []" "\<forall>d \<in> set ip. d < 10" "fs \<noteq> []" "\<forall>d \<in> set fs. d < 10"
    "real (digits_value ip) + real (digits_value fs) / 10 ^ length fs = - x"
    by blast
  with float_of_str_negative [of ip fs] True show ?thesis by (simp add: str_float_def)
qed

subsection \<open>The round trip through the stores\<close>

lemma load_saved_collection:
  "valid_collection w \<Longrightarrow> numbers_survive_text py w \<Longrightarrow>
   courses_file u = courses_file (save_all_data py w) \<Longrightarrow>
   assignments_file u = assignments_file (save_all_data py w) \<Longrightarrow>
   fst (load_all_data py u) = Inr () \<and>
   collection (snd (load_all_data py u)) = collection w"
proof -
  assume valid: "valid_collection w" and nums: "numbers_survive_text py w"
    and cfu: "courses_file u = courses_file (save_all_data py w)"
    and afu: "assignments_file u = assignments_file (save_all_data py w)"
  define vals where "vals = map (\<lambda>c. (course_id (course_obj w c), name (course_obj w c))) (courses w)"
  define xs where
    "xs = concat (map (\<lambda>c. map (assignment_obj w) (assignments (course_obj w c))) (courses w))"
  define F where
    "F = (\<lambda>(i :: int, n :: string option). (i, n, filter (\<lambda>x. a_course_id x = i) xs))"
  \<comment> \<open>the course store\<close>
  have cf: "courses_file u = Some (courses_header # map (course_row w) (courses w))"
    by (simp add: cfu courses_file_save_all_data)
  have cd: "DictReader (courses_header # map (course_row w) (courses w)) =
              map (mk_dict courses_header) (map (course_row w) (courses w))"
    by (rule DictReader_rows) (auto simp: course_row_def)
  have cv: "map course_of_row (map (mk_dict courses_header) (map (course_row w) (courses w))) =
              map Inr vals"
    using valid by (simp add: vals_def valid_collection_def course_of_row_course_row)
  from load_course_rows_ok [OF cv, of "[]" u] obtain w1 where
    l1: "load_course_rows (map (mk_dict courses_header) (map (course_row w) (courses w))) [] u =
           (Inr [next_course u ..< next_course u + length vals], w1)"
    and m1: "map (course_obj w1) [next_course u ..< next_course u + length vals] =
           map (\<lambda>(i, n). \<lparr>course_id = i, name = n, assignments = []\<rparr>) vals"
    by auto
  define cs where "cs = [next_course u ..< next_course u + length vals]"
  have lc: "load_courses u = (Inr cs, w1)"
    using l1 by (simp add: load_courses_def cf cd cs_def)
  note f1 = load_courses_fresh [OF lc]
  \<comment> \<open>the assignment store\<close>
  have af: "assignments_file (w1\<lparr>courses := cs\<rparr>) =
      Some (assignments_header #
        concat (map (\<lambda>c. map (assignment_row py w) (assignments (course_obj w c))) (courses w)))"
    using f1 by (simp add: afu assignments_file_save_all_data)
  have ad: "DictReader (assignments_header #
        concat (map (\<lambda>c. map (assignment_row py w) (assignments (course_obj w c))) (courses w))) =
      map (mk_dict assignments_header)
        (concat (map (\<lambda>c. map (assignment_row py w) (assignments (course_obj w c))) (courses w)))"
    by (rule DictReader_rows) (auto simp: assignment_row_def)
  have av: "map (assignment_of_row py) (map (mk_dict assignments_header)
        (concat (map (\<lambda>c. map (assignment_row py w) (assignments (course_obj w c))) (courses w)))) =
      map Inr xs"
    using valid nums
    by (simp add: xs_def map_concat valid_collection_def numbers_survive_text_def
        assignment_of_row_assignment_row cong: map_cong)
  from load_assignment_rows_ok [OF av, of "[]" "w1\<lparr>courses := cs\<rparr>"] obtain w2 where
    l2: "load_assignment_rows py (map (mk_dict assignments_header)
        (concat (map (\<lambda>c. map (assignment_row py w) (assignments (course_obj w c))) (courses w))))
        [] (w1\<lparr>courses := cs\<rparr>) =
           (Inr [next_assignment w1 ..< next_assignment w1 + length xs], w2)"
    and m2: "map (assignment_obj w2) [next_assignment w1 ..< next_assignment w1 + length xs] = xs"
    by auto
  define as where "as = [next_assignment w1 ..< next_assignment w1 + length xs]"
  have la: "load_assignments py (w1\<lparr>courses := cs\<rparr>) = (Inr as, w2)"
    using l2 by (simp add: load_assignments_def af ad as_def)
  note f2 = load_assignments_frame [OF la]
  \<comment> \<open>linking\<close>
  define w' where "w' = link_assignments as w2"
  have res: "load_all_data py u = (Inr (), w')"
    by (simp add: load_all_data_def lc la w'_def)
  have co: "course_obj w2 = course_obj w1" and cw2: "courses w2 = cs"
    using f2 by simp_all
  have hd: "map (\<lambda>c. (course_id (course_obj w1 c), name (course_obj w1 c))) cs = vals"
  proof -
    have "map (\<lambda>c. (course_id (course_obj w1 c), name (course_obj w1 c))) cs =
            map (\<lambda>C. (course_id C, name C)) (map (course_obj w1) cs)"
      by simp
    also have "\<dots> = vals" unfolding cs_def m1 by (simp add: case_prod_unfold comp_def)
    finally show ?thesis .
  qed
  have ids: "map (\<lambda>c. course_id (course_obj w1 c)) cs = map (\<lambda>c. course_id (course_obj w c)) (courses w)"
  proof -
    have "map (\<lambda>c. course_id (course_obj w1 c)) cs =
            map fst (map (\<lambda>c. (course_id (course_obj w1 c), name (course_obj w1 c))) cs)"
      by simp
    also have "\<dots> = map (\<lambda>c. course_id (course_obj w c)) (courses w)"
      unfolding hd by (simp add: vals_def)
    finally show ?thesis .
  qed
  have dist: "distinct (map (\<lambda>c. course_id (course_obj w1 c)) cs)"
    unfolding ids using valid by (simp add: valid_collection_def)
  have view': "\<And>c. c \<in> set cs \<Longrightarrow>
      course_view w' c = F (course_id (course_obj w1 c), name (course_obj w1 c))"
  proof -
    fix c assume c: "c \<in> set cs"
    from f1 have "\<forall>c \<in> set cs. assignments (course_obj w1 c) = []" by blast
    with c have e: "assignments (course_obj w1 c) = []" by blast
    have k: "\<And>a. (find (\<lambda>c'. course_id (course_obj w1 c') = a_course_id (assignment_obj w2 a)) cs = Some c)
                \<longleftrightarrow> course_id (course_obj w1 c) = a_course_id (assignment_obj w2 a)"
      by (rule find_distinct_key [OF dist c])
    have "assignments (course_obj w' c) =
            filter (\<lambda>a. course_id (course_obj w1 c) = a_course_id (assignment_obj w2 a)) as"
      by (simp add: w'_def link_assignments_assignments e cw2 co k)
    then have "map (assignment_obj w') (assignments (course_obj w' c)) =
            filter (\<lambda>x. a_course_id x = course_id (course_obj w1 c)) (map (assignment_obj w2) as)"
      by (simp add: w'_def link_assignments_frame filter_map comp_def eq_commute)
    also have "map (assignment_obj w2) as = xs" unfolding as_def by (rule m2)
    finally show "course_view w' c = F (course_id (course_obj w1 c), name (course_obj w1 c))"
      by (simp add: course_view_def F_def w'_def link_assignments_frame co)
  qed
  have "collection w' = map (course_view w') cs"
    by (simp add: collection_def w'_def link_assignments_frame cw2)
  also have "\<dots> = map F (map (\<lambda>c. (course_id (course_obj w1 c), name (course_obj w1 c))) cs)"
    using view' by simp
  also have "\<dots> = map F vals" unfolding hd ..
  finally have new: "collection w' = map F vals" .
  have view: "\<And>c. c \<in> set (courses w) \<Longrightarrow>
      course_view w c = F (course_id (course_obj w c), name (course_obj w c))"
  proof -
    fix c assume c: "c \<in> set (courses w)"
    have "filter (\<lambda>x. a_course_id x = course_id (course_obj w c)) xs =
            map (assignment_obj w) (assignments (course_obj w c))"
      unfolding xs_def
      using valid c by (intro filter_concat_owner) (auto simp: valid_collection_def)
    then show "course_view w c = F (course_id (course_obj w c), name (course_obj w c))"
      by (simp add: course_view_def F_def)
  qed
  have old: "collection w = map F vals"
    using view by (simp add: collection_def vals_def)
  show ?thesis
    using res new old by simp
qed

lemma hw2_world_next:
  "next_course hw2_world = 1" "next_assignment hw2_world = 2"
  by (simp_all add: hw2_world_def hw1_world_def algorithms_world_def started_world_eq run_defs
      empty_world_def)

lemma quiz_world_fields:
  "courses quiz_world = [0, 1]"
  "course_obj quiz_world 0 = \<lparr>course_id = 1, name = Some ''Algorithms'', assignments = [0, 1]\<rparr>"
  "course_obj quiz_world (Suc 0) = \<lparr>course_id = 2, name = Some ''Databases'', assignments = [2]\<rparr>"
  "assignment_obj quiz_world 0 =
     \<lparr>assignment_id = 1, a_course_id = 1, a_name = Some ''HW1'', score = 8, max_points = 10\<rparr>"
  "assignment_obj quiz_world (Suc 0) =
     \<lparr>assignment_id = 2, a_course_id = 1, a_name = Some ''HW2'', score = 18, max_points = 20\<rparr>"
  "assignment_obj quiz_world 2 =
     \<lparr>assignment_id = 3, a_course_id = 2, a_name = Some ''Quiz'', score = 10, max_points = 20\<rparr>"
  by (simp_all add: quiz_world_def add_course_def add_assignment_def new_Course_def
      new_Assignment_def Course_add_assignment_def max_default_def strip_def is_space_def
      hw2_world_fields hw2_world_next Let_def)

lemma frac_digits_zero [simp]: "frac_digits n 0 = []"
  by (cases n) simp_all

lemma frac_digits_numeral:
  "frac_digits (numeral k) f =
     (if f = 0 then []
      else digit_char (nat \<lfloor>10 * f\<rfloor>) # frac_digits (pred_numeral k) (10 * f - of_int \<lfloor>10 * f\<rfloor>))"
  by (simp add: numeral_eq_Suc)

lemma str_float_examples:
  "str_float 8 = ''8.0''"
  "str_float 7.5 = ''7.5''"
  "str_float (- 0.25) = ''-0.25''"
  "str_float 86.625 = ''86.625''"
  by (simp_all add: str_float_def str_unsigned_def max_fraction_digits_def frac_digits_numeral
      str_nat.simps digit_char_def)

lemma float_of_str_examples:
  "float_of_str ''7.5'' = Inr 7.5"
  "float_of_str '' -0.25 '' = Inr (- 0.25)"
  "float_of_str ''8'' = Inr 8"
  "float_of_str ''1_0.5e-1'' = Inr 1.05"
  "float_of_str ''.'' = Inl (ValueError ''could not convert string to float'')"
  "float_of_str ''8.0.1'' = Inl (ValueError ''could not convert string to float'')"
  by (simp_all add: float_of_str_def strip_def is_space_def read_sign_def read_digits_def
      read_fraction_def read_exponent_def digits_value_def digit_val_unfold)

lemma finite_float_decimal: "finite_float x \<Longrightarrow> decimal_number x"
proof -
  assume "finite_float x"
  then obtain m :: int and a b :: nat where b: "b \<le> max_fraction_digits"
    and x: "x = of_int m * 2 ^ a / 2 ^ b"
    by (auto simp: finite_float_def max_fraction_digits_def)
  define N where "N = max_fraction_digits"
  have "(10 :: real) ^ N = (2 * 5) ^ N" by simp
  also have "\<dots> = 2 ^ N * 5 ^ N" by (rule power_mult_distrib)
  also have "(2 :: real) ^ N = 2 ^ b * 2 ^ (N - b)"
    using b by (simp add: N_def power_add [symmetric])
  finally have "x * 10 ^ N = of_int m * 2 ^ a * 2 ^ (N - b) * 5 ^ N"
    by (simp add: x)
  also have "\<dots> = of_int (m * 2 ^ a * 2 ^ (N - b) * 5 ^ N)" by simp
  finally show ?thesis unfolding decimal_number_def N_def by (simp only: Ints_of_int)
qed

lemma finite_float_of_int: "\<bar>k\<bar> < 2 ^ 53 \<Longrightarrow> finite_float (of_int k)"
  unfolding finite_float_def by (intro exI [of _ k] exI [of _ 0]) simp

lemma numbers_survive_cpython: "float_scores w \<Longrightarrow> numbers_survive_text cpython w"
  by (simp add: float_scores_def numbers_survive_text_def cpython_def float_of_str_str_float
      finite_float_decimal)

text \<open>
  Claim C3. A valid collection is saved (\<^verbatim>\<open>save_all_courses\<close>, then
  \<^verbatim>\<open>save_all_assignments\<close>). In any world that holds the two files so written,
  whatever its objects and course list (a fresh process in particular), loading and
  relinking raises nothing and gives a collection equal to the saved one: the same
  courses in the same order, each with the same id and name and with the same
  assignments (ids, course ids, names, scores, maximum points) in the same order. The
  same holds of constructing a new calculator there. Scores and maximum points are
  floats, written and read as decimal text.
\<close>

theorem save_load_roundtrip:
  "valid_collection w \<Longrightarrow> float_scores w \<Longrightarrow>
   courses_file u = courses_file (save_all_data cpython w) \<Longrightarrow>
   assignments_file u = assignments_file (save_all_data cpython w) \<Longrightarrow>
   fst (load_all_data cpython u) = Inr () \<and>
   collection (snd (load_all_data cpython u)) = collection w \<and>
   fst (GradeCalculator_init cpython u) = Inr () \<and>
   collection (snd (GradeCalculator_init cpython u)) = collection w"
proof -
  assume valid: "valid_collection w" and nums: "float_scores w"
    and cfu: "courses_file u = courses_file (save_all_data cpython w)"
    and afu: "assignments_file u = assignments_file (save_all_data cpython w)"
  note n = numbers_survive_cpython [OF nums]
  define v where "v = create_files_if_needed (u\<lparr>courses := []\<rparr>)"
  have "courses_file v = courses_file (save_all_data cpython w)"
    and "assignments_file v = assignments_file (save_all_data cpython w)"
    using cfu afu
    by (simp_all add: v_def create_files_if_needed_def courses_file_save_all_data
        assignments_file_save_all_data)
  from load_saved_collection [OF valid n this]
  have "fst (GradeCalculator_init cpython u) = Inr () \<and>
        collection (snd (GradeCalculator_init cpython u)) = collection w"
    by (simp add: GradeCalculator_init_def v_def)
  with load_saved_collection [OF valid n cfu afu] show ?thesis by simp
qed

lemma quiz_restart_files:
  "courses_file quiz_restart =
     Some [courses_header, [''1'', ''Algorithms''], [''2'', ''Databases'']]"
  "assignments_file quiz_restart =
     Some [assignments_header,
       [''1'', ''1'', ''HW1'', ''8.0'', ''10.0''],
       [''2'', ''1'', ''HW2'', ''18.0'', ''20.0''],
       [''3'', ''2'', ''Quiz'', ''10.0'', ''20.0'']]"
  "courses quiz_restart = []"
  by (simp_all add: quiz_restart_def empty_world_def courses_file_save_all_data
      assignments_file_save_all_data quiz_world_fields course_row_def assignment_row_def
      csv_text_def cpython_def str_int_def str_float_def str_unsigned_def str_nat.simps
      digit_char_def)

theorem save_load_roundtrip_witness:
  "valid_collection quiz_world \<and> float_scores quiz_world \<and>
   courses_file quiz_restart = courses_file (save_all_data cpython quiz_world) \<and>
   assignments_file quiz_restart = assignments_file (save_all_data cpython quiz_world) \<and>
   assignments_file quiz_restart =
     Some [assignments_header,
       [''1'', ''1'', ''HW1'', ''8.0'', ''10.0''],
       [''2'', ''1'', ''HW2'', ''18.0'', ''20.0''],
       [''3'', ''2'', ''Quiz'', ''10.0'', ''20.0'']] \<and>
   collection quiz_restart = [] \<and>
   fst (load_all_data cpython quiz_restart) = Inr () \<and>
   collection (snd (load_all_data cpython quiz_restart)) =
     [(1, Some ''Algorithms'',
        [\<lparr>assignment_id = 1, a_course_id = 1, a_name = Some ''HW1'', score = 8, max_points = 10\<rparr>,
         \<lparr>assignment_id = 2, a_course_id = 1, a_name = Some ''HW2'', score = 18, max_points = 20\<rparr>]),
      (2, Some ''Databases'',
        [\<lparr>assignment_id = 3, a_course_id = 2, a_name = Some ''Quiz'', score = 10, max_points = 20\<rparr>])] \<and>
   collection (snd (load_all_data cpython quiz_restart)) = collection quiz_world \<and>
   fst (GradeCalculator_init cpython quiz_restart) = Inr () \<and>
   collection (snd (GradeCalculator_init cpython quiz_restart)) = collection quiz_world"
proof -
  have v: "valid_collection quiz_world"
    by (simp add: valid_collection_def quiz_world_fields)
  have "finite_float (of_int 8)" "finite_float (of_int 10)" "finite_float (of_int 18)"
    "finite_float (of_int 20)"
    by (rule finite_float_of_int, simp)+
  then have n: "float_scores quiz_world"
    by (simp add: float_scores_def quiz_world_fields)
  have c: "collection quiz_world =
     [(1, Some ''Algorithms'',
        [\<lparr>assignment_id = 1, a_course_id = 1, a_name = Some ''HW1'', score = 8, max_points = 10\<rparr>,
         \<lparr>assignment_id = 2, a_course_id = 1, a_name = Some ''HW2'', score = 18, max_points = 20\<rparr>]),
      (2, Some ''Databases'',
        [\<lparr>assignment_id = 3, a_course_id = 2, a_name = Some ''Quiz'', score = 10, max_points = 20\<rparr>])]"
    by (simp add: collection_def course_view_def quiz_world_fields)
  have f: "courses_file quiz_restart = courses_file (save_all_data cpython quiz_world)"
    "assignments_file quiz_restart = assignments_file (save_all_data cpython quiz_world)"
    by (simp_all add: quiz_restart_def)
  have e: "collection quiz_restart = []"
    by (simp add: collection_def quiz_restart_files)
  from save_load_roundtrip [OF v n f] v n f e quiz_restart_files(2) show ?thesis
    by (simp add: c)
qed

end
